theory Spec2Isabelle
  imports Complex_Main "HOL-Library.Monad_Syntax"
begin

section \<open>Tensors and the framework operators used by danet.py\<close>

text \<open>
  A tensor is its shape and its elements in row-major order, as the framework stores it.
  Elements are real numbers: the float32 values of the program are idealised, so rounding,
  overflow and the special values of IEEE arithmetic are outside this development.
  A call that raises in the framework is the value \<open>None\<close>.
\<close>

record tensor =
  shape :: "nat list"
  data :: "real list"

definition wf_tensor :: "tensor \<Rightarrow> bool" where
  "wf_tensor t = (length (data t) = prod_list (shape t))"

text \<open>Row-major addressing: the multi-index of a flat position, and back.\<close>

fun unravel :: "nat list \<Rightarrow> nat \<Rightarrow> nat list" where
  "unravel [] i = []"
| "unravel (s # ss) i = (i div prod_list ss) # unravel ss (i mod prod_list ss)"

fun ravel :: "nat list \<Rightarrow> nat list \<Rightarrow> nat" where
  "ravel (s # ss) (i # js) = i * prod_list ss + ravel ss js"
| "ravel ss js = 0"

definition elem :: "tensor \<Rightarrow> nat list \<Rightarrow> real" where
  "elem t ix = data t ! ravel (shape t) ix"

text \<open>
  \<open>paddle.reshape(x, shape)\<close>: an entry 0 copies the dimension of \<open>x\<close> at the same
  position, one entry may be -1 and is inferred from the number of elements.
\<close>

definition reshape :: "tensor \<Rightarrow> int list \<Rightarrow> tensor option" where
  "reshape x tgt =
    (if list_ex (\<lambda>(i, d). d = 0 \<and> length (shape x) \<le> i) (enumerate 0 tgt)
        \<or> list_ex (\<lambda>d. d < - 1) tgt \<or> 1 < length (filter (\<lambda>d. d = - 1) tgt)
     then None
     else
       let ds = map (\<lambda>(i, d). if d = 0 then int (shape x ! i) else d) (enumerate 0 tgt);
           known = nat (prod_list (filter (\<lambda>d. d \<noteq> - 1) ds));
           total = length (data x)
       in if list_ex (\<lambda>d. d = - 1) ds then
            (if known = 0 \<or> total mod known \<noteq> 0 then None
             else Some \<lparr>shape = map (\<lambda>d. if d = - 1 then total div known else nat d) ds,
                        data = data x\<rparr>)
          else if known = total then Some \<lparr>shape = map nat ds, data = data x\<rparr>
          else None)"

text \<open>\<open>paddle.transpose(x, perm)\<close>: axis \<open>k\<close> of the result is axis \<open>perm ! k\<close> of \<open>x\<close>.\<close>

fun index_of :: "nat list \<Rightarrow> nat \<Rightarrow> nat" where
  "index_of [] a = 0"
| "index_of (q # qs) a = (if q = a then 0 else Suc (index_of qs a))"

definition transpose :: "tensor \<Rightarrow> nat list \<Rightarrow> tensor option" where
  "transpose x perm =
    (let s = shape x; r = length s in
     if length perm = r \<and> distinct perm \<and> list_all (\<lambda>a. a < r) perm then
       let out = map (\<lambda>a. s ! a) perm in
       Some \<lparr>shape = out,
             data = map (\<lambda>idx. let ix = unravel out idx
                                in data x ! ravel s (map (\<lambda>a. ix ! index_of perm a) [0..<r]))
                        [0..<prod_list out]\<rparr>
     else None)"

text \<open>\<open>paddle.bmm(x, y)\<close>: batched matrix product of two 3-D tensors.\<close>

definition bmm :: "tensor \<Rightarrow> tensor \<Rightarrow> tensor option" where
  "bmm x y =
    (case shape x of
       [b, m, k] \<Rightarrow>
         (case shape y of
            [b', k', q] \<Rightarrow>
              if b = b' \<and> k = k' then
                Some \<lparr>shape = [b, m, q],
                      data = map (\<lambda>idx. let bi = idx div (m * q); i = idx div q mod m; j = idx mod q
                                         in sum_list (map (\<lambda>l. data x ! (bi * (m * k) + i * k + l)
                                                              * data y ! (bi * (k * q) + l * q + j)) [0..<k]))
                                 [0..<b * m * q]\<rparr>
              else None
          | _ \<Rightarrow> None)
     | _ \<Rightarrow> None)"

text \<open>\<open>F.softmax(x, axis=-1)\<close>: every row along the last axis is exponentiated and normalised.\<close>

definition softmax_last :: "tensor \<Rightarrow> tensor option" where
  "softmax_last x =
    (if shape x = [] then None
     else let L = last (shape x) in
       Some \<lparr>shape = shape x,
             data = map (\<lambda>idx. exp (data x ! idx)
                                / sum_list (map (\<lambda>l. exp (data x ! (idx div L * L + l))) [0..<L]))
                        [0..<prod_list (shape x)]\<rparr>)"

text \<open>\<open>paddle.max(x, axis=-1, keepdim=True)\<close>: the maximum of every row along the last axis.\<close>

definition max_last_keepdim :: "tensor \<Rightarrow> tensor option" where
  "max_last_keepdim x =
    (if shape x = [] \<or> last (shape x) = 0 then None
     else let L = last (shape x) in
       Some \<lparr>shape = butlast (shape x) @ [1],
             data = map (\<lambda>k. Max (set (map (\<lambda>l. data x ! (k * L + l)) [0..<L])))
                        [0..<prod_list (butlast (shape x))]\<rparr>)"

text \<open>
  Broadcasting: shapes are aligned at the right, a dimension of size 1 is repeated.
  \<open>expand_as\<close> and the elementwise operators \<open>+\<close>, \<open>-\<close>, \<open>*\<close> of the framework use it.
\<close>

definition pad_shape :: "nat \<Rightarrow> nat list \<Rightarrow> nat list" where
  "pad_shape r s = replicate (r - length s) 1 @ s"

definition broadcast_shapes :: "nat list \<Rightarrow> nat list \<Rightarrow> nat list option" where
  "broadcast_shapes sx sy =
    (let r = max (length sx) (length sy); a = pad_shape r sx; b = pad_shape r sy in
     if list_all2 (\<lambda>u v. u = v \<or> u = 1 \<or> v = 1) a b
     then Some (map2 (\<lambda>u v. if u = 1 then v else u) a b) else None)"

definition broadcast_to :: "tensor \<Rightarrow> nat list \<Rightarrow> tensor option" where
  "broadcast_to x s =
    (let sx = pad_shape (length s) (shape x) in
     if length (shape x) \<le> length s \<and> list_all2 (\<lambda>u v. u = v \<or> u = 1) sx s then
       Some \<lparr>shape = s,
             data = map (\<lambda>idx. data x ! ravel sx (map2 (\<lambda>u i. if u = 1 then 0 else i) sx (unravel s idx)))
                        [0..<prod_list s]\<rparr>
     else None)"

definition expand_as :: "tensor \<Rightarrow> tensor \<Rightarrow> tensor option" where
  "expand_as x y = broadcast_to x (shape y)"

definition elementwise :: "(real \<Rightarrow> real \<Rightarrow> real) \<Rightarrow> tensor \<Rightarrow> tensor \<Rightarrow> tensor option" where
  "elementwise f x y = do {
     s \<leftarrow> broadcast_shapes (shape x) (shape y);
     a \<leftarrow> broadcast_to x s;
     b \<leftarrow> broadcast_to y s;
     Some \<lparr>shape = s, data = map2 f (data a) (data b)\<rparr>
   }"

definition add :: "tensor \<Rightarrow> tensor \<Rightarrow> tensor option" where
  "add x y = elementwise (+) x y"

definition sub :: "tensor \<Rightarrow> tensor \<Rightarrow> tensor option" where
  "sub x y = elementwise (-) x y"

definition mul :: "tensor \<Rightarrow> tensor \<Rightarrow> tensor option" where
  "mul x y = elementwise (*) x y"

text \<open>
  \<open>F.resize_bilinear(input, out_shape)\<close> with the framework's defaults
  (\<open>align_corners=True\<close>): the result has the batch and channel sizes of the input and
  the spatial size \<open>out_shape\<close>.
\<close>

definition resize_bilinear :: "tensor \<Rightarrow> nat list \<Rightarrow> tensor option" where
  "resize_bilinear input out_shape =
    (case shape input of
       [n, c, in_h, in_w] \<Rightarrow>
         (case out_shape of
            [out_h, out_w] \<Rightarrow>
              if in_h = 0 \<or> in_w = 0 \<or> out_h = 0 \<or> out_w = 0 then None
              else
                let ratio_h = (if 1 < out_h then (real in_h - 1) / (real out_h - 1) else 0);
                    ratio_w = (if 1 < out_w then (real in_w - 1) / (real out_w - 1) else 0)
                in Some \<lparr>shape = [n, c, out_h, out_w],
                     data = map (\<lambda>idx.
                       let nc = idx div (out_h * out_w); k = idx div out_w mod out_h; l = idx mod out_w;
                           y_n = nat \<lfloor>ratio_h * real k\<rfloor>; y_s = min (y_n + 1) (in_h - 1);
                           d_n = ratio_h * real k - real y_n; d_s = 1 - d_n;
                           x_w = nat \<lfloor>ratio_w * real l\<rfloor>; x_e = min (x_w + 1) (in_w - 1);
                           d_w = ratio_w * real l - real x_w; d_e = 1 - d_w;
                           v = (\<lambda>yy xx. data input ! (nc * (in_h * in_w) + yy * in_w + xx))
                       in v y_n x_w * d_s * d_e + v y_s x_w * d_n * d_e
                          + v y_n x_e * d_s * d_w + v y_s x_e * d_n * d_w)
                     [0..<n * c * out_h * out_w]\<rparr>
          | _ \<Rightarrow> None)
     | _ \<Rightarrow> None)"

section \<open>Layers of the framework\<close>

text \<open>Exceptions a constructor of danet.py can raise.\<close>

datatype error = TypeError | IndexError | AssertionError | Exception string

definition bindE :: "error + 'a \<Rightarrow> ('a \<Rightarrow> error + 'b) \<Rightarrow> error + 'b" where
  "bindE m f = (case m of Inl e \<Rightarrow> Inl e | Inr v \<Rightarrow> f v)"

text \<open>Python's \<open>xs[i]\<close>: a negative index counts from the end, out of range raises IndexError.\<close>

definition py_index :: "'a list \<Rightarrow> int \<Rightarrow> 'a option" where
  "py_index xs i =
    (let n = int (length xs); j = (if i < 0 then n + i else i)
     in if 0 \<le> j \<and> j < n then Some (xs ! nat j) else None)"

text \<open>
  \<open>nn.Conv2d(in_channels, out_channels, 1)\<close>: a convolution with a 1x1 kernel, stride 1 and
  no padding, the only kind danet.py creates itself. Its weight has shape
  \<open>[out_channels, in_channels, 1, 1]\<close>, its bias \<open>[out_channels]\<close>. The initial values come
  from the framework's initialiser, a parameter \<open>ini\<close> of the model that maps the name and
  the shape of a parameter to its values; the framework refuses a parameter with a dimension 0.
\<close>

record Conv2d =
  weight :: tensor
  bias :: tensor

definition create_parameter :: "(string \<Rightarrow> nat list \<Rightarrow> real list) \<Rightarrow> string \<Rightarrow> nat list \<Rightarrow> error + tensor" where
  "create_parameter ini name s =
    (if list_ex (\<lambda>d. d = 0) s then Inl AssertionError
     else Inr \<lparr>shape = s, data = ini name s\<rparr>)"

definition Constant :: "real \<Rightarrow> string \<Rightarrow> nat list \<Rightarrow> real list" where
  "Constant v name s = replicate (prod_list s) v"

text \<open>
  \<open>create_parameter(..., default_initializer=d)\<close>: an initialiser installed globally in
  the framework (\<open>set_global_initializer\<close>) takes precedence over \<open>d\<close>; \<open>None\<close>
  says that no global initialiser is installed.
\<close>

definition default_initializer ::
  "(string \<Rightarrow> nat list \<Rightarrow> real list) option \<Rightarrow> (string \<Rightarrow> nat list \<Rightarrow> real list)
    \<Rightarrow> string \<Rightarrow> nat list \<Rightarrow> real list" where
  "default_initializer glob d = (case glob of None \<Rightarrow> d | Some g \<Rightarrow> g)"

definition Conv2d_init :: "(string \<Rightarrow> nat list \<Rightarrow> real list) \<Rightarrow> string \<Rightarrow> nat \<Rightarrow> nat \<Rightarrow> nat \<Rightarrow> error + Conv2d" where
  "Conv2d_init ini name in_channels out_channels kernel_size =
    bindE (create_parameter ini (name @ ''.weight'') [out_channels, in_channels, kernel_size, kernel_size]) (\<lambda>w.
    bindE (create_parameter ini (name @ ''.bias'') [out_channels]) (\<lambda>b.
    Inr \<lparr>weight = w, bias = b\<rparr>))"

definition Conv2d_forward :: "Conv2d \<Rightarrow> tensor \<Rightarrow> tensor option" where
  "Conv2d_forward self x =
    (case shape x of
       [n, c, h, w] \<Rightarrow>
         (case shape (weight self) of
            [co, ci, kh, kw] \<Rightarrow>
              if c = ci \<and> kh = 1 \<and> kw = 1 \<and> shape (bias self) = [co] then
                Some \<lparr>shape = [n, co, h, w],
                      data = map (\<lambda>idx. let b = idx div (co * (h * w)); oc = idx div (h * w) mod co;
                                             px = idx mod (h * w)
                                         in data (bias self) ! oc
                                            + sum_list (map (\<lambda>i. data (weight self) ! (oc * ci + i)
                                                                 * data x ! (b * (c * (h * w)) + i * (h * w) + px))
                                                            [0..<ci]))
                                 [0..<n * co * h * w]\<rparr>
              else None
          | _ \<Rightarrow> None)
     | _ \<Rightarrow> None)"

text \<open>
  \<open>nn.Dropout2d(p)\<close>: in training mode every channel of every batch element is kept with
  probability \<open>1 - p\<close> and scaled by \<open>1 / (1 - p)\<close>, or set to zero; in evaluation mode the
  layer is the identity. The random choice is an argument of the model: \<open>keep k\<close> says
  whether channel \<open>k\<close> (counted over batch and channel) is kept in this call.
\<close>

record Dropout2d =
  drop_p :: real
  training :: bool

definition Dropout2d_forward :: "Dropout2d \<Rightarrow> (nat \<Rightarrow> bool) \<Rightarrow> tensor \<Rightarrow> tensor option" where
  "Dropout2d_forward self keep x =
    (case shape x of
       [n, c, h, w] \<Rightarrow>
         if training self then
           Some \<lparr>shape = shape x,
                 data = map (\<lambda>idx. if keep (idx div (h * w)) then data x ! idx / (1 - drop_p self) else 0)
                            [0..<n * c * h * w]\<rparr>
         else Some x
     | _ \<Rightarrow> None)"

text \<open>\<open>nn.Sequential(nn.Dropout2d(0.1), nn.Conv2d(inter_channels, num_classes, 1))\<close>.\<close>

record Sequential =
  seq_dropout :: Dropout2d
  seq_conv :: Conv2d

definition Sequential_forward :: "Sequential \<Rightarrow> (nat \<Rightarrow> bool) \<Rightarrow> tensor \<Rightarrow> tensor option" where
  "Sequential_forward self keep x = do {
     y \<leftarrow> Dropout2d_forward (seq_dropout self) keep x;
     Conv2d_forward (seq_conv self) y
   }"

section \<open>PAM: the position attention module (danet.py, lines 26-67)\<close>

record PAM =
  query_conv :: Conv2d
  key_conv :: Conv2d
  value_conv :: Conv2d
  gamma :: tensor

definition PAM_init ::
  "(string \<Rightarrow> nat list \<Rightarrow> real list) option \<Rightarrow> (string \<Rightarrow> nat list \<Rightarrow> real list)
    \<Rightarrow> string \<Rightarrow> nat \<Rightarrow> error + PAM" where
  "PAM_init glob ini name in_channels =
    (let mid_channels = in_channels div 8 in
     bindE (Conv2d_init ini (name @ ''.query_conv'') in_channels mid_channels 1) (\<lambda>q.
     bindE (Conv2d_init ini (name @ ''.key_conv'') in_channels mid_channels 1) (\<lambda>k.
     bindE (Conv2d_init ini (name @ ''.value_conv'') in_channels in_channels 1) (\<lambda>v.
     bindE (create_parameter (default_initializer glob (Constant 0)) (name @ ''.gamma'') [1]) (\<lambda>g.
     Inr \<lparr>query_conv = q, key_conv = k, value_conv = v, gamma = g\<rparr>)))))"

text \<open>Lines 43-56: the similarity matrix after the softmax, of shape \<open>[n, h * w, h * w]\<close>.\<close>

definition PAM_sim :: "PAM \<Rightarrow> tensor \<Rightarrow> tensor option" where
  "PAM_sim self x =
    (case shape x of
       [n, c, h, w] \<Rightarrow> do {
         query \<leftarrow> Conv2d_forward (query_conv self) x;
         query \<leftarrow> reshape query [int n, - 1, int (h * w)];
         query \<leftarrow> transpose query [0, 2, 1];
         key \<leftarrow> Conv2d_forward (key_conv self) x;
         key \<leftarrow> reshape key [int n, - 1, int (h * w)];
         sim \<leftarrow> bmm query key;
         softmax_last sim
       }
     | _ \<Rightarrow> None)"

definition PAM_forward :: "PAM \<Rightarrow> tensor \<Rightarrow> tensor option" where
  "PAM_forward self x =
    (case shape x of
       [n, c, h, w] \<Rightarrow> do {
         sim \<leftarrow> PAM_sim self x;
         val \<leftarrow> Conv2d_forward (value_conv self) x;
         val \<leftarrow> reshape val [int n, - 1, int (h * w)];
         sim \<leftarrow> transpose sim [0, 2, 1];
         feat \<leftarrow> bmm val sim;
         feat \<leftarrow> reshape feat [int n, - 1, int h, int w];
         scaled \<leftarrow> mul (gamma self) feat;
         add scaled x
       }
     | _ \<Rightarrow> None)"

section \<open>CAM: the channel attention module (danet.py, lines 70-102)\<close>

record CAM =
  cam_gamma :: tensor

definition CAM_init :: "(string \<Rightarrow> nat list \<Rightarrow> real list) option \<Rightarrow> string \<Rightarrow> error + CAM" where
  "CAM_init glob name =
    bindE (create_parameter (default_initializer glob (Constant 0)) (name @ ''.gamma'') [1]) (\<lambda>g.
    Inr \<lparr>cam_gamma = g\<rparr>)"

text \<open>Lines 82-91: the raw channel similarity matrix, of shape \<open>[n, c, c]\<close>.\<close>

definition CAM_raw_sim :: "tensor \<Rightarrow> tensor option" where
  "CAM_raw_sim x =
    (case shape x of
       [n, c, h, w] \<Rightarrow> do {
         query \<leftarrow> reshape x [int n, int c, int (h * w)];
         key \<leftarrow> reshape x [int n, int c, int (h * w)];
         key \<leftarrow> transpose key [0, 2, 1];
         bmm query key
       }
     | _ \<Rightarrow> None)"

text \<open>Lines 93-94: every entry is replaced by its row's maximum minus the entry, then the softmax.\<close>

definition CAM_sim :: "tensor \<Rightarrow> tensor option" where
  "CAM_sim x = do {
     sim \<leftarrow> CAM_raw_sim x;
     mx \<leftarrow> max_last_keepdim sim;
     mx \<leftarrow> expand_as mx sim;
     sim \<leftarrow> sub mx sim;
     softmax_last sim
   }"

definition CAM_forward :: "CAM \<Rightarrow> tensor \<Rightarrow> tensor option" where
  "CAM_forward self x =
    (case shape x of
       [n, c, h, w] \<Rightarrow> do {
         sim \<leftarrow> CAM_sim x;
         val \<leftarrow> reshape x [int n, int c, int (h * w)];
         feat \<leftarrow> bmm sim val;
         feat \<leftarrow> reshape feat [int n, int c, int h, int w];
         scaled \<leftarrow> mul (cam_gamma self) feat;
         add scaled x
       }
     | _ \<Rightarrow> None)"

section \<open>DAHead: the dual attention head (danet.py, lines 105-160)\<close>

text \<open>
  \<open>ConvBNReLU\<close> (paddleseg.models.common.layer_libs) and \<open>param_init\<close>
  (paddleseg.cvlibs) are not part of danet.py. They are parameters of the model, together
  with the framework's initialisers (\<open>global_initializer\<close> is the initialiser installed
  globally, if any; \<open>default_init\<close> gives the values of a parameter created without an
  initialiser of its own): \<open>'cbr\<close> is the type of a ConvBNReLU layer,
  \<open>ConvBNReLU\<close> its constructor, \<open>ConvBNReLU_forward\<close> its forward function and
  \<open>ConvBNReLU_init_weight\<close> what the loop of \<open>DAHead.init_weight\<close> does to the
  convolution and the batch normalisation inside it; \<open>normal_init\<close> gives the values
  \<open>param_init.normal_init\<close> draws for a named parameter.
\<close>

record 'cbr framework =
  global_initializer :: "(string \<Rightarrow> nat list \<Rightarrow> real list) option"
  default_init :: "string \<Rightarrow> nat list \<Rightarrow> real list"
  normal_init :: "string \<Rightarrow> nat list \<Rightarrow> real list"
  ConvBNReLU :: "string \<Rightarrow> nat \<Rightarrow> nat \<Rightarrow> nat \<Rightarrow> error + 'cbr"
  ConvBNReLU_forward :: "'cbr \<Rightarrow> tensor \<Rightarrow> tensor option"
  ConvBNReLU_init_weight :: "string \<Rightarrow> 'cbr \<Rightarrow> 'cbr"

record 'cbr DAHead =
  channel_conv :: 'cbr
  position_conv :: 'cbr
  pam :: PAM
  cam :: CAM
  conv1 :: 'cbr
  conv2 :: 'cbr
  aux_head_pam :: Sequential
  aux_head_cam :: Sequential
  cls_head :: Sequential

definition Sequential_init :: "(string \<Rightarrow> nat list \<Rightarrow> real list) \<Rightarrow> string \<Rightarrow> nat \<Rightarrow> nat \<Rightarrow> error + Sequential" where
  "Sequential_init ini name inter_channels num_classes =
    bindE (Conv2d_init ini (name @ ''.1'') inter_channels num_classes 1) (\<lambda>cv.
    Inr \<lparr>seq_dropout = \<lparr>drop_p = 1 / 10, training = True\<rparr>, seq_conv = cv\<rparr>)"

definition Conv2d_normal_init :: "(string \<Rightarrow> nat list \<Rightarrow> real list) \<Rightarrow> string \<Rightarrow> Conv2d \<Rightarrow> Conv2d" where
  "Conv2d_normal_init nrm name cv =
    cv\<lparr>weight := \<lparr>shape = shape (weight cv), data = nrm (name @ ''.weight'') (shape (weight cv))\<rparr>\<rparr>"

text \<open>
  Lines 153-160: every \<open>nn.Conv2d\<close> below the head gets a weight drawn from a normal
  distribution; the batch normalisations are inside the ConvBNReLU layers.
\<close>

definition DAHead_init_weight :: "'cbr framework \<Rightarrow> 'cbr DAHead \<Rightarrow> 'cbr DAHead" where
  "DAHead_init_weight fw self =
    (let nrm = normal_init fw; seq = (\<lambda>name s. s\<lparr>seq_conv := Conv2d_normal_init nrm (name @ ''.1'') (seq_conv s)\<rparr>) in
     \<lparr>channel_conv = ConvBNReLU_init_weight fw ''channel_conv'' (channel_conv self),
      position_conv = ConvBNReLU_init_weight fw ''position_conv'' (position_conv self),
      pam = \<lparr>query_conv = Conv2d_normal_init nrm ''pam.query_conv'' (query_conv (pam self)),
             key_conv = Conv2d_normal_init nrm ''pam.key_conv'' (key_conv (pam self)),
             value_conv = Conv2d_normal_init nrm ''pam.value_conv'' (value_conv (pam self)),
             gamma = gamma (pam self)\<rparr>,
      cam = cam self,
      conv1 = ConvBNReLU_init_weight fw ''conv1'' (conv1 self),
      conv2 = ConvBNReLU_init_weight fw ''conv2'' (conv2 self),
      aux_head_pam = seq ''aux_head_pam'' (aux_head_pam self),
      aux_head_cam = seq ''aux_head_cam'' (aux_head_cam self),
      cls_head = seq ''cls_head'' (cls_head self)\<rparr>)"

definition DAHead_init :: "'cbr framework \<Rightarrow> nat \<Rightarrow> nat list option \<Rightarrow> error + 'cbr DAHead" where
  "DAHead_init fw num_classes in_channels =
    (case in_channels of
       None \<Rightarrow> Inl TypeError
     | Some chs \<Rightarrow>
         (case py_index chs (- 1) of
            None \<Rightarrow> Inl IndexError
          | Some in_ch \<Rightarrow>
              let inter_channels = in_ch div 4; ini = default_init fw in
              bindE (ConvBNReLU fw ''channel_conv'' in_ch inter_channels 3) (\<lambda>cc.
              bindE (ConvBNReLU fw ''position_conv'' in_ch inter_channels 3) (\<lambda>pc.
              bindE (PAM_init (global_initializer fw) ini ''pam'' inter_channels) (\<lambda>pm.
              bindE (CAM_init (global_initializer fw) ''cam'') (\<lambda>cm.
              bindE (ConvBNReLU fw ''conv1'' inter_channels inter_channels 3) (\<lambda>c1.
              bindE (ConvBNReLU fw ''conv2'' inter_channels inter_channels 3) (\<lambda>c2.
              bindE (Sequential_init ini ''aux_head_pam'' inter_channels num_classes) (\<lambda>ap.
              bindE (Sequential_init ini ''aux_head_cam'' inter_channels num_classes) (\<lambda>ac.
              bindE (Sequential_init ini ''cls_head'' inter_channels num_classes) (\<lambda>ch.
              Inr (DAHead_init_weight fw
                    \<lparr>channel_conv = cc, position_conv = pc, pam = pm, cam = cm, conv1 = c1, conv2 = c2,
                     aux_head_pam = ap, aux_head_cam = ac, cls_head = ch\<rparr>))))))))))))"

text \<open>Lines 138-145: the refined features of the channel branch and of the position branch.\<close>

definition DAHead_branches :: "'cbr framework \<Rightarrow> 'cbr DAHead \<Rightarrow> tensor list \<Rightarrow> (tensor \<times> tensor) option" where
  "DAHead_branches fw self feat_list = do {
     feats \<leftarrow> py_index feat_list (- 1);
     channel_feats \<leftarrow> ConvBNReLU_forward fw (channel_conv self) feats;
     channel_feats \<leftarrow> CAM_forward (cam self) channel_feats;
     channel_feats \<leftarrow> ConvBNReLU_forward fw (conv1 self) channel_feats;
     position_feats \<leftarrow> ConvBNReLU_forward fw (position_conv self) feats;
     position_feats \<leftarrow> PAM_forward (pam self) position_feats;
     position_feats \<leftarrow> ConvBNReLU_forward fw (conv2 self) position_feats;
     Some (channel_feats, position_feats)
   }"

text \<open>
  Lines 147-151. \<open>draws k\<close> is the channel mask the \<open>k\<close>-th call of a dropout layer draws
  in this forward pass (it is read in training mode only).
\<close>

definition DAHead_forward :: "'cbr framework \<Rightarrow> 'cbr DAHead \<Rightarrow> (nat \<Rightarrow> nat \<Rightarrow> bool) \<Rightarrow> tensor list \<Rightarrow> tensor list option" where
  "DAHead_forward fw self draws feat_list = do {
     (channel_feats, position_feats) \<leftarrow> DAHead_branches fw self feat_list;
     feats_sum \<leftarrow> add position_feats channel_feats;
     cam_logit \<leftarrow> Sequential_forward (aux_head_cam self) (draws 0) channel_feats;
     pam_logit \<leftarrow> Sequential_forward (aux_head_cam self) (draws 1) position_feats;
     logit \<leftarrow> Sequential_forward (cls_head self) (draws 2) feats_sum;
     Some [logit, cam_logit, pam_logit]
   }"

section \<open>DANet: the network (danet.py, lines 163-213)\<close>

text \<open>
  The backbone is an external network: its list of channel counts and its forward function.
  \<open>os.path.exists\<close> and \<open>utils.load_pretrained_model\<close> are parameters too; a
  constructor returns its result together with the paths the loader was called with.
\<close>

record backbone_model =
  feat_channels :: "nat list"
  bb_forward :: "tensor \<Rightarrow> tensor list option"

record 'cbr DANet =
  backbone :: backbone_model
  backbone_indices :: "int list"
  head :: "'cbr DAHead"

definition DANet_init_weight ::
  "(string \<Rightarrow> bool) \<Rightarrow> ('cbr DANet \<Rightarrow> string \<Rightarrow> error + 'cbr DANet) \<Rightarrow> 'cbr DANet \<Rightarrow> string option
    \<Rightarrow> (error + 'cbr DANet) \<times> string list" where
  "DANet_init_weight path_exists load_pretrained_model self pretrained =
    (case pretrained of
       None \<Rightarrow> (Inr self, [])
     | Some path \<Rightarrow>
         if path_exists path then (load_pretrained_model self path, [path])
         else (Inl (Exception (''Pretrained model is not found: '' @ path)), []))"

definition DANet_init ::
  "'cbr framework \<Rightarrow> (string \<Rightarrow> bool) \<Rightarrow> ('cbr DANet \<Rightarrow> string \<Rightarrow> error + 'cbr DANet)
    \<Rightarrow> nat \<Rightarrow> backbone_model \<Rightarrow> string option \<Rightarrow> int list option
    \<Rightarrow> (error + 'cbr DANet) \<times> string list" where
  "DANet_init fw path_exists load_pretrained_model num_classes bb pretrained indices =
    (case indices of
       None \<Rightarrow> (Inl TypeError, [])
     | Some idxs \<Rightarrow>
         (case those (map (py_index (feat_channels bb)) idxs) of
            None \<Rightarrow> (Inl IndexError, [])
          | Some in_channels \<Rightarrow>
              (case DAHead_init fw num_classes (Some in_channels) of
                 Inl e \<Rightarrow> (Inl e, [])
               | Inr h \<Rightarrow>
                   DANet_init_weight path_exists load_pretrained_model
                     \<lparr>backbone = bb, backbone_indices = idxs, head = h\<rparr> pretrained)))"

definition DANet_forward :: "'cbr framework \<Rightarrow> 'cbr DANet \<Rightarrow> (nat \<Rightarrow> nat \<Rightarrow> bool) \<Rightarrow> tensor \<Rightarrow> tensor list option" where
  "DANet_forward fw self draws x = do {
     feats \<leftarrow> bb_forward (backbone self) x;
     feats \<leftarrow> those (map (py_index feats) (backbone_indices self));
     preds \<leftarrow> DAHead_forward fw (head self) draws feats;
     those (map (\<lambda>pred. resize_bilinear pred (drop 2 (shape x))) preds)
   }"

section \<open>Well-formed modules\<close>

text \<open>
  The shapes the constructors give to the parameters. Training changes the values of
  the parameters, never their shapes.
\<close>

definition Conv2d_wf :: "nat \<Rightarrow> nat \<Rightarrow> Conv2d \<Rightarrow> bool" where
  "Conv2d_wf cin cout cv =
    (0 < cin \<and> 0 < cout \<and> shape (weight cv) = [cout, cin, 1, 1] \<and> shape (bias cv) = [cout]
     \<and> wf_tensor (weight cv) \<and> wf_tensor (bias cv))"

definition PAM_wf :: "nat \<Rightarrow> PAM \<Rightarrow> bool" where
  "PAM_wf c self =
    (Conv2d_wf c (c div 8) (query_conv self) \<and> Conv2d_wf c (c div 8) (key_conv self)
     \<and> Conv2d_wf c c (value_conv self) \<and> shape (gamma self) = [1] \<and> wf_tensor (gamma self))"

definition CAM_wf :: "CAM \<Rightarrow> bool" where
  "CAM_wf self = (shape (cam_gamma self) = [1] \<and> wf_tensor (cam_gamma self))"

text \<open>The maximum of row \<open>i\<close> of batch element \<open>b\<close> of a 3-D tensor.\<close>

definition row_max :: "tensor \<Rightarrow> nat \<Rightarrow> nat \<Rightarrow> real" where
  "row_max t b i = Max ((\<lambda>l. elem t [b, i, l]) ` {..<last (shape t)})"

text \<open>
  Modelled from the spec: the ConvBNReLU layers are missing from danet.py; the spec
  describes them as 3x3 convolution, batch normalisation and activation projecting
  \<open>in_channels\<close> to \<open>inter_channels\<close> (or \<open>inter_channels\<close> to itself) at the
  resolution of the feature map. \<open>cbr_maps fw l cin cout\<close> states this shape behaviour
  for the layer \<open>l\<close>.
\<close>

definition cbr_maps :: "'cbr framework \<Rightarrow> 'cbr \<Rightarrow> nat \<Rightarrow> nat \<Rightarrow> bool" where
  "cbr_maps fw l cin cout =
    (\<forall>x n h w. wf_tensor x \<and> shape x = [n, cin, h, w] \<and> 0 < n \<and> 0 < h \<and> 0 < w \<longrightarrow>
       (\<exists>y. ConvBNReLU_forward fw l x = Some y \<and> wf_tensor y \<and> shape y = [n, cout, h, w]))"

definition DAHead_wf :: "'cbr framework \<Rightarrow> nat \<Rightarrow> nat \<Rightarrow> 'cbr DAHead \<Rightarrow> bool" where
  "DAHead_wf fw in_ch num_classes self =
    (let inter_channels = in_ch div 4 in
     cbr_maps fw (channel_conv self) in_ch inter_channels
     \<and> cbr_maps fw (position_conv self) in_ch inter_channels
     \<and> cbr_maps fw (conv1 self) inter_channels inter_channels
     \<and> cbr_maps fw (conv2 self) inter_channels inter_channels
     \<and> PAM_wf inter_channels (pam self) \<and> CAM_wf (cam self)
     \<and> Conv2d_wf inter_channels num_classes (seq_conv (aux_head_pam self))
     \<and> Conv2d_wf inter_channels num_classes (seq_conv (aux_head_cam self))
     \<and> Conv2d_wf inter_channels num_classes (seq_conv (cls_head self)))"

section \<open>Example inputs\<close>

text \<open>
  A feature map of shape \<open>[1, 8, 1, 2]\<close>, a position attention module for 8 channels as
  the constructor creates it from an initialiser that returns 1/2 everywhere, and modules
  whose gate has moved away from 0.
\<close>

definition example_x :: tensor where
  "example_x = \<lparr>shape = [1, 8, 1, 2], data = [1, 2, 3, 4, 5, 6, 7, 8, 9, 10, 11, 12, 13, 14, 15, 16]\<rparr>"

definition example_conv :: "nat \<Rightarrow> nat \<Rightarrow> Conv2d" where
  "example_conv cin cout =
    \<lparr>weight = \<lparr>shape = [cout, cin, 1, 1], data = replicate (cout * cin) (1 / 2)\<rparr>,
     bias = \<lparr>shape = [cout], data = replicate cout (1 / 2)\<rparr>\<rparr>"

definition example_pam :: PAM where
  "example_pam = \<lparr>query_conv = example_conv 8 1, key_conv = example_conv 8 1,
                  value_conv = example_conv 8 8, gamma = \<lparr>shape = [1], data = [0]\<rparr>\<rparr>"


definition trained_pam :: PAM where
  "trained_pam = example_pam\<lparr>gamma := \<lparr>shape = [1], data = [3]\<rparr>\<rparr>"

definition trained_cam :: CAM where
  "trained_cam = \<lparr>cam_gamma = \<lparr>shape = [1], data = [2]\<rparr>\<rparr>"

text \<open>
  A stand-in for the missing ConvBNReLU: a layer is its pair of channel counts, and its
  forward pass maps a feature map with \<open>cin\<close> channels to the all-ones feature map with
  \<open>cout\<close> channels and the same batch and spatial sizes. With it, a head for 3 classes
  on a backbone whose last feature map has 32 channels.
\<close>

definition example_fw :: "(nat \<times> nat) framework" where
  "example_fw =
    \<lparr>global_initializer = None,
     default_init = Constant (1 / 2),
     normal_init = Constant (1 / 8),
     ConvBNReLU = (\<lambda>name cin cout k. if cin = 0 \<or> cout = 0 then Inl AssertionError else Inr (cin, cout)),
     ConvBNReLU_forward = (\<lambda>(cin, cout) x.
        case shape x of
          [n, c, h, w] \<Rightarrow>
            if c = cin then Some \<lparr>shape = [n, cout, h, w], data = replicate (n * cout * h * w) 1\<rparr>
            else None
        | _ \<Rightarrow> None),
     ConvBNReLU_init_weight = (\<lambda>name l. l)\<rparr>"

definition example_seq :: Sequential where
  "example_seq =
    \<lparr>seq_dropout = \<lparr>drop_p = 1 / 10, training = True\<rparr>,
     seq_conv = \<lparr>weight = \<lparr>shape = [3, 8, 1, 1], data = replicate 24 (1 / 8)\<rparr>,
                 bias = \<lparr>shape = [3], data = replicate 3 (1 / 2)\<rparr>\<rparr>\<rparr>"

definition example_head :: "(nat \<times> nat) DAHead" where
  "example_head =
    \<lparr>channel_conv = (32, 8), position_conv = (32, 8),
     pam = \<lparr>query_conv = \<lparr>weight = \<lparr>shape = [1, 8, 1, 1], data = replicate 8 (1 / 8)\<rparr>,
                          bias = \<lparr>shape = [1], data = replicate 1 (1 / 2)\<rparr>\<rparr>,
            key_conv = \<lparr>weight = \<lparr>shape = [1, 8, 1, 1], data = replicate 8 (1 / 8)\<rparr>,
                        bias = \<lparr>shape = [1], data = replicate 1 (1 / 2)\<rparr>\<rparr>,
            value_conv = \<lparr>weight = \<lparr>shape = [8, 8, 1, 1], data = replicate 64 (1 / 8)\<rparr>,
                          bias = \<lparr>shape = [8], data = replicate 8 (1 / 2)\<rparr>\<rparr>,
            gamma = \<lparr>shape = [1], data = [0]\<rparr>\<rparr>,
     cam = \<lparr>cam_gamma = \<lparr>shape = [1], data = [0]\<rparr>\<rparr>,
     conv1 = (8, 8), conv2 = (8, 8),
     aux_head_pam = example_seq, aux_head_cam = example_seq, cls_head = example_seq\<rparr>"

definition example_feat :: tensor where
  "example_feat = \<lparr>shape = [1, 32, 1, 1], data = replicate 32 1\<rparr>"

definition ones8 :: tensor where
  "ones8 = \<lparr>shape = [1, 8, 1, 1], data = replicate 8 1\<rparr>"

text \<open>
  Dropout draws: in \<open>example_draws\<close> the first and the third dropout call of a forward
  pass keep every channel and the second call drops every channel. \<open>eval_head\<close> is the
  example head in evaluation mode.
\<close>

definition example_draws :: "nat \<Rightarrow> nat \<Rightarrow> bool" where
  "example_draws k ch = (k \<noteq> 1)"

definition eval_seq :: Sequential where
  "eval_seq = example_seq\<lparr>seq_dropout := \<lparr>drop_p = 1 / 10, training = False\<rparr>\<rparr>"

definition eval_head :: "(nat \<times> nat) DAHead" where
  "eval_head = example_head\<lparr>aux_head_pam := eval_seq, aux_head_cam := eval_seq, cls_head := eval_seq\<rparr>"

definition const_tensor :: "nat list \<Rightarrow> real \<Rightarrow> tensor" where
  "const_tensor s v = \<lparr>shape = s, data = replicate (prod_list s) v\<rparr>"

text \<open>
  A backbone with two feature maps of 16 and 32 channels, the network built on it with the
  example head, an input image, and a file system that holds one file.
\<close>

definition example_bb :: backbone_model where
  "example_bb =
    \<lparr>feat_channels = [16, 32],
     bb_forward = (\<lambda>x. case shape x of
                          [n, c, h, w] \<Rightarrow> Some [const_tensor [n, 16, 2, 2] 1, const_tensor [n, 32, 1, 1] 1]
                        | _ \<Rightarrow> None)\<rparr>"

definition example_net :: "(nat \<times> nat) DANet" where
  "example_net = \<lparr>backbone = example_bb, backbone_indices = [0, 1], head = example_head\<rparr>"

definition example_image :: tensor where
  "example_image = const_tensor [1, 3, 4, 4] 1"

definition example_exists :: "string \<Rightarrow> bool" where
  "example_exists path = (path = ''model.pdparams'')"

definition example_load :: "(nat \<times> nat) DANet \<Rightarrow> string \<Rightarrow> error + (nat \<times> nat) DANet" where
  "example_load net path = Inr (net\<lparr>head := eval_head\<rparr>)"

section \<open>Properties of the operators\<close>

lemma reshape_infer3:
  assumes "length (data x) = n * c * m" "0 < n" "0 < m"
  shows "reshape x [int n, - 1, int m] = Some \<lparr>shape = [n, c, m], data = data x\<rparr>"
proof -
  have "n * c * m mod (n * m) = 0" by (simp add: mult.commute mult.left_commute)
  moreover have "n * c * m div (n * m) = c" using assms by (simp add: mult.commute mult.left_commute)
  ultimately show ?thesis using assms
    by (simp add: reshape_def enumerate_eq_zip Let_def nat_mult_distrib)
qed

lemma reshape_infer4:
  assumes "length (data x) = n * c * h * w" "0 < n" "0 < h" "0 < w"
  shows "reshape x [int n, - 1, int h, int w] = Some \<lparr>shape = [n, c, h, w], data = data x\<rparr>"
proof -
  have "n * c * h * w mod (n * (h * w)) = 0" by (simp add: mult.commute mult.left_commute)
  moreover have "n * c * h * w div (n * (h * w)) = c" using assms by (simp add: mult.commute mult.left_commute)
  ultimately show ?thesis using assms
    by (simp add: reshape_def enumerate_eq_zip Let_def nat_mult_distrib)
qed

lemma reshape_exact3:
  assumes "length (data x) = n * c * m" "0 < n" "0 < c" "0 < m"
  shows "reshape x [int n, int c, int m] = Some \<lparr>shape = [n, c, m], data = data x\<rparr>"
  using assms by (simp add: reshape_def enumerate_eq_zip Let_def nat_mult_distrib)

lemma reshape_exact4:
  assumes "length (data x) = n * c * h * w" "0 < n" "0 < c" "0 < h" "0 < w"
  shows "reshape x [int n, int c, int h, int w] = Some \<lparr>shape = [n, c, h, w], data = data x\<rparr>"
  using assms by (simp add: reshape_def enumerate_eq_zip Let_def nat_mult_distrib)

lemma transpose_021:
  assumes "shape x = [b, r, c]"
  shows "\<exists>y. transpose x [0, 2, 1] = Some y \<and> shape y = [b, c, r] \<and> wf_tensor y"
  using assms by (simp add: transpose_def Let_def wf_tensor_def)

lemma bmm_shape:
  assumes "shape x = [b, m, k]" "shape y = [b, k, q]"
  shows "\<exists>z. bmm x y = Some z \<and> shape z = [b, m, q] \<and> wf_tensor z"
  using assms by (simp add: bmm_def wf_tensor_def)

lemma softmax_last_shape:
  assumes "shape x \<noteq> []"
  shows "\<exists>z. softmax_last x = Some z \<and> shape z = shape x \<and> wf_tensor z"
  using assms by (simp add: softmax_last_def wf_tensor_def Let_def)

lemma Conv2d_forward_shape:
  assumes "shape x = [n, c, h, w]" "shape (weight cv) = [co, c, 1, 1]" "shape (bias cv) = [co]"
  shows "\<exists>z. Conv2d_forward cv x = Some z \<and> shape z = [n, co, h, w] \<and> wf_tensor z"
  using assms by (simp add: Conv2d_forward_def wf_tensor_def)

lemma ravel_unravel_mask:
  "i < prod_list s \<Longrightarrow> ravel s (map2 (\<lambda>u. If (u = Suc 0) 0) s (unravel s i)) = i"
proof (induction s arbitrary: i)
  case Nil
  then show ?case by simp
next
  case (Cons a s)
  have P: "0 < prod_list s" using Cons.prems by (cases "prod_list s = 0") auto
  have r: "i mod prod_list s < prod_list s" using P by simp
  have h: "(if a = Suc 0 then 0 else i div prod_list s) = i div prod_list s"
    using Cons.prems by (auto simp: div_eq_0_iff)
  show ?case using Cons.IH[OF r] h by simp
qed

lemma pad_shape_same [simp]: "pad_shape (length s) s = s"
  by (simp add: pad_shape_def)

lemma broadcast_to_same:
  assumes "wf_tensor x"
  shows "broadcast_to x (shape x) = Some x"
proof -
  have "map (\<lambda>idx. data x ! ravel (shape x) (map2 (\<lambda>u. If (u = Suc 0) 0) (shape x) (unravel (shape x) idx)))
            [0..<prod_list (shape x)] = map (\<lambda>idx. data x ! idx) [0..<length (data x)]"
    using assms by (auto simp: wf_tensor_def ravel_unravel_mask)
  then show ?thesis
    by (simp add: broadcast_to_def list_all2_same map_nth)
qed

lemma map2_if_one_same: "map2 (\<lambda>u v. if u = Suc 0 then v else u) s s = s"
  by (induction s) auto

lemma broadcast_shapes_same: "broadcast_shapes s s = Some s"
  by (simp add: broadcast_shapes_def list_all2_same map2_if_one_same)

lemma elementwise_same:
  assumes "wf_tensor x" "wf_tensor y" "shape x = shape y"
  shows "elementwise f x y = Some \<lparr>shape = shape x, data = map2 f (data x) (data y)\<rparr>"
  using assms broadcast_to_same[of x] broadcast_to_same[of y]
  by (simp add: elementwise_def broadcast_shapes_same)

lemma ravel_ones_mask:
  "ravel (replicate r (Suc 0)) (map2 (\<lambda>u. If (u = Suc 0) 0) (replicate r (Suc 0)) js) = 0"
proof (induction r arbitrary: js)
  case 0
  then show ?case by simp
next
  case (Suc r)
  then show ?case by (cases js) auto
qed

lemma map2_if_one_ones:
  "length s = r \<Longrightarrow> map2 (\<lambda>u v. if u = Suc 0 then v else u) (replicate r (Suc 0)) s = s"
  by (induction s arbitrary: r) auto

lemma list_all2_ones: "length s = r \<Longrightarrow> list_all2 (\<lambda>u v. u = v \<or> u = Suc 0 \<or> Q v) (replicate r (Suc 0)) s"
  by (induction s arbitrary: r) auto

lemma list_all2_ones': "length s = r \<Longrightarrow> list_all2 (\<lambda>u v. u = v \<or> u = Suc 0) (replicate r (Suc 0)) s"
  by (induction s arbitrary: r) auto

lemma pad_shape_one: "0 < r \<Longrightarrow> pad_shape r [Suc 0] = replicate r (Suc 0)"
  by (cases r) (auto simp: pad_shape_def replicate_append_same)

lemma broadcast_shapes_scalar:
  assumes "s \<noteq> []"
  shows "broadcast_shapes [1] s = Some s"
proof -
  have l: "0 < length s" using assms by simp
  then have m: "max (Suc 0) (length s) = length s" by (simp add: max_def Suc_le_eq)
  show ?thesis using l
    by (simp add: broadcast_shapes_def m pad_shape_one list_all2_ones map2_if_one_ones)
qed

lemma broadcast_to_scalar:
  assumes "shape g = [1]" "s \<noteq> []"
  shows "broadcast_to g s = Some \<lparr>shape = s, data = map (\<lambda>_. data g ! 0) [0..<prod_list s]\<rparr>"
proof -
  have l: "0 < length s" using assms by simp
  show ?thesis using l assms(1)
    by (simp add: broadcast_to_def pad_shape_one list_all2_ones' ravel_ones_mask Suc_le_eq)
qed

lemma elementwise_scalar:
  assumes "shape g = [1]" "wf_tensor y" "shape y \<noteq> []"
  shows "elementwise f g y = Some \<lparr>shape = shape y, data = map (f (data g ! 0)) (data y)\<rparr>"
proof -
  have e: "map2 f (map (\<lambda>_. data g ! 0) [0..<prod_list (shape y)]) (data y) = map (f (data g ! 0)) (data y)"
    using assms(2) unfolding wf_tensor_def
    by (intro nth_equalityI) auto
  have b: "broadcast_shapes [Suc 0] (shape y) = Some (shape y)"
    using broadcast_shapes_scalar[OF assms(3)] by simp
  show ?thesis
    using assms broadcast_to_same[of y] broadcast_to_scalar[of g "shape y"] e
    by (simp add: elementwise_def b)
qed

lemma Conv2d_wf_forward:
  assumes "Conv2d_wf c co cv" "shape x = [n, c, h, w]"
  shows "\<exists>z. Conv2d_forward cv x = Some z \<and> shape z = [n, co, h, w] \<and> wf_tensor z"
  using assms Conv2d_forward_shape[of x n c h w cv co] by (simp add: Conv2d_wf_def)

lemma PAM_sim_softmax:
  assumes x: "shape x = [n, c, h, w]" and pos: "0 < n" "0 < h" "0 < w"
    and p: "PAM_wf c self"
  shows "\<exists>s sim. shape s = [n, h * w, h * w] \<and> softmax_last s = Some sim \<and>
           PAM_sim self x = Some sim \<and> shape sim = [n, h * w, h * w] \<and> wf_tensor sim"
proof -
  let ?m = "c div 8"
  have hw: "0 < h * w" using pos by simp
  obtain q where q: "Conv2d_forward (query_conv self) x = Some q" "shape q = [n, ?m, h, w]" "wf_tensor q"
    using Conv2d_wf_forward[of c ?m "query_conv self" x n h w] p x by (auto simp: PAM_wf_def)
  have q2: "reshape q [int n, - 1, int (h * w)] = Some \<lparr>shape = [n, ?m, h * w], data = data q\<rparr>"
    using q pos hw by (intro reshape_infer3) (simp_all add: wf_tensor_def)
  obtain qt where qt: "transpose \<lparr>shape = [n, ?m, h * w], data = data q\<rparr> [0, 2, 1] = Some qt"
      "shape qt = [n, h * w, ?m]"
    using transpose_021[of "\<lparr>shape = [n, ?m, h * w], data = data q\<rparr>" n ?m "h * w"] by auto
  obtain k where k: "Conv2d_forward (key_conv self) x = Some k" "shape k = [n, ?m, h, w]" "wf_tensor k"
    using Conv2d_wf_forward[of c ?m "key_conv self" x n h w] p x by (auto simp: PAM_wf_def)
  have k2: "reshape k [int n, - 1, int (h * w)] = Some \<lparr>shape = [n, ?m, h * w], data = data k\<rparr>"
    using k pos hw by (intro reshape_infer3) (simp_all add: wf_tensor_def)
  obtain s where s: "bmm qt \<lparr>shape = [n, ?m, h * w], data = data k\<rparr> = Some s" "shape s = [n, h * w, h * w]"
    using bmm_shape[of qt n "h * w" ?m "\<lparr>shape = [n, ?m, h * w], data = data k\<rparr>" "h * w"] qt by auto
  obtain sm where sm: "softmax_last s = Some sm" "shape sm = shape s" "wf_tensor sm"
    using softmax_last_shape[of s] s by auto
  have "PAM_sim self x = Some sm"
    unfolding PAM_sim_def using x q q2 qt k k2 s sm by (simp del: of_nat_mult)
  then show ?thesis using s sm by auto
qed

lemma PAM_sim_shape:
  assumes "shape x = [n, c, h, w]" "0 < n" "0 < h" "0 < w" "PAM_wf c self"
  shows "\<exists>sim. PAM_sim self x = Some sim \<and> shape sim = [n, h * w, h * w] \<and> wf_tensor sim"
  using PAM_sim_softmax[OF assms] by blast

lemma PAM_forward_value:
  assumes x: "shape x = [n, c, h, w]" "wf_tensor x" and pos: "0 < n" "0 < h" "0 < w"
    and p: "PAM_wf c self"
  shows "\<exists>feat. shape feat = [n, c, h, w] \<and> wf_tensor feat \<and>
           PAM_forward self x =
             Some \<lparr>shape = [n, c, h, w],
                   data = map2 (+) (map ((*) (data (gamma self) ! 0)) (data feat)) (data x)\<rparr>"
proof -
  have hw: "0 < h * w" using pos by simp
  obtain sim where sim: "PAM_sim self x = Some sim" "shape sim = [n, h * w, h * w]"
    using PAM_sim_shape[OF x(1) pos p] by auto
  obtain v where v: "Conv2d_forward (value_conv self) x = Some v" "shape v = [n, c, h, w]" "wf_tensor v"
    using Conv2d_wf_forward[of c c "value_conv self" x n h w] p x by (auto simp: PAM_wf_def)
  have v2: "reshape v [int n, - 1, int (h * w)] = Some \<lparr>shape = [n, c, h * w], data = data v\<rparr>"
    using v pos hw by (intro reshape_infer3) (simp_all add: wf_tensor_def)
  obtain st where st: "transpose sim [0, 2, 1] = Some st" "shape st = [n, h * w, h * w]"
    using transpose_021[of sim n "h * w" "h * w"] sim by auto
  obtain f where f: "bmm \<lparr>shape = [n, c, h * w], data = data v\<rparr> st = Some f" "shape f = [n, c, h * w]"
      "wf_tensor f"
    using bmm_shape[of "\<lparr>shape = [n, c, h * w], data = data v\<rparr>" n c "h * w" st "h * w"] st by auto
  let ?feat = "\<lparr>shape = [n, c, h, w], data = data f\<rparr>"
  have f2: "reshape f [int n, - 1, int h, int w] = Some ?feat"
    using f pos by (intro reshape_infer4) (simp_all add: wf_tensor_def mult.assoc)
  have wfeat: "wf_tensor ?feat" using f by (simp add: wf_tensor_def mult.assoc)
  let ?g = "data (gamma self) ! 0"
  have m: "mul (gamma self) ?feat = Some \<lparr>shape = [n, c, h, w], data = map ((*) ?g) (data f)\<rparr>"
    using elementwise_scalar[of "gamma self" ?feat "(*)"] p wfeat by (simp add: mul_def PAM_wf_def)
  have a: "add \<lparr>shape = [n, c, h, w], data = map ((*) ?g) (data f)\<rparr> x
      = Some \<lparr>shape = [n, c, h, w], data = map2 (+) (map ((*) ?g) (data f)) (data x)\<rparr>"
    using elementwise_same[of "\<lparr>shape = [n, c, h, w], data = map ((*) ?g) (data f)\<rparr>" x "(+)"] x wfeat
    by (simp add: add_def wf_tensor_def)
  have "PAM_forward self x = Some \<lparr>shape = [n, c, h, w], data = map2 (+) (map ((*) ?g) (data ?feat)) (data x)\<rparr>"
    unfolding PAM_forward_def using x sim v v2 st f f2 m a by (simp del: of_nat_mult)
  then show ?thesis using wfeat by (intro exI[of _ ?feat]) simp
qed

lemma elem3: "shape t = [a, r, c] \<Longrightarrow> elem t [b, i, j] = data t ! ((b * r + i) * c + j)"
  by (simp add: elem_def algebra_simps)

lemma row_index_div:
  fixes k c j :: nat
  assumes "j < c"
  shows "(k * c + j) div c = k"
  using assms by simp

lemma row_index_bound:
  fixes b n i r j c :: nat
  assumes "b < n" "i < r" "j < c"
  shows "(b * r + i) * c + j < n * r * c"
proof -
  have "b * r + i < b * r + r" using assms by simp
  also have "\<dots> = (Suc b) * r" by simp
  also have "\<dots> \<le> n * r" using assms by (intro mult_le_mono1) simp
  finally have 1: "b * r + i < n * r" .
  have "(b * r + i) * c + j < (b * r + i) * c + c" using assms by simp
  also have "\<dots> = Suc (b * r + i) * c" by simp
  also have "\<dots> \<le> (n * r) * c" using 1 by (intro mult_le_mono1) simp
  finally show ?thesis .
qed

lemma softmax_last_elem:
  assumes "shape s = [n, r, c]" "softmax_last s = Some sm" "b < n" "i < r" "j < c"
  shows "elem sm [b, i, j] = exp (elem s [b, i, j]) / (\<Sum>l<c. exp (elem s [b, i, l]))"
proof -
  let ?k = "b * r + i"
  have bd: "?k * c + j < n * r * c" using row_index_bound[OF assms(3,4,5)] .
  have dv: "(?k * c + j) div c = ?k" using row_index_div[OF assms(5)] .
  have sm: "sm = \<lparr>shape = [n, r, c],
      data = map (\<lambda>idx. exp (data s ! idx) / sum_list (map (\<lambda>l. exp (data s ! (idx div c * c + l))) [0..<c]))
                 [0..<n * r * c]\<rparr>"
    using assms(1,2) by (auto simp: softmax_last_def Let_def mult.assoc)
  have "elem sm [b, i, j] = data sm ! (?k * c + j)" by (rule elem3) (simp add: sm)
  also have "\<dots> = exp (data s ! (?k * c + j)) / sum_list (map (\<lambda>l. exp (data s ! (?k * c + l))) [0..<c])"
    using bd by (simp add: sm dv del: div_mult_self3 div_mult_self4 div_mult_self2 div_mult_self1)
  also have "sum_list (map (\<lambda>l. exp (data s ! (?k * c + l))) [0..<c]) = (\<Sum>l<c. exp (data s ! (?k * c + l)))"
    by (simp add: interv_sum_list_conv_sum_set_nat atLeast0LessThan)
  finally show ?thesis using assms(1) by (simp add: elem3)
qed


lemma expand_index:
  fixes idx c L :: nat
  assumes "0 < L"
  shows "idx div (c * L) * c + idx mod (c * L) div L = idx div L"
proof -
  have 1: "idx div (c * L) = idx div L div c" by (simp add: div_mult2_eq mult.commute)
  have "idx mod (L * c) = L * (idx div L mod c) + idx mod L" by (rule mod_mult2_eq)
  then have "idx mod (L * c) div L = idx div L mod c" using assms by simp
  then have 2: "idx mod (c * L) div L = idx div L mod c" by (simp add: mult.commute)
  show ?thesis unfolding 1 2 by simp
qed

lemma broadcast_to_last:
  assumes "shape m = [n, c, 1]" "0 < L"
  shows "broadcast_to m [n, c, L] =
    Some \<lparr>shape = [n, c, L], data = map (\<lambda>idx. data m ! (idx div L)) [0..<n * c * L]\<rparr>"
proof -
  have "ravel [n, c, Suc 0] (map2 (\<lambda>u. If (u = Suc 0) 0) [n, c, Suc 0] (unravel [n, c, L] idx)) = idx div L"
    if "idx < n * c * L" for idx
  proof -
    have a: "(if n = Suc 0 then 0 else idx div (c * L)) = idx div (c * L)"
      using that by (auto simp: div_eq_0_iff)
    have b: "(if c = Suc 0 then 0 else idx mod (c * L) div L) = idx mod (c * L) div L"
      using assms(2) by (auto simp: div_eq_0_iff)
    show ?thesis using expand_index[OF assms(2), of idx c] by (simp add: a b)
  qed
  then show ?thesis using assms
    by (simp add: broadcast_to_def pad_shape_def mult.assoc)
qed

lemma max_last_keepdim3:
  assumes "shape t = [n, r, c]" "0 < c"
  shows "max_last_keepdim t =
    Some \<lparr>shape = [n, r, 1],
          data = map (\<lambda>k. Max ((\<lambda>l. data t ! (k * c + l)) ` {..<c})) [0..<n * r]\<rparr>"
  using assms by (simp add: max_last_keepdim_def atLeast0LessThan)

lemma CAM_raw_sim_shape:
  assumes x: "shape x = [n, c, h, w]" "wf_tensor x" and pos: "0 < n" "0 < c" "0 < h" "0 < w"
  shows "\<exists>raw. CAM_raw_sim x = Some raw \<and> shape raw = [n, c, c] \<and> wf_tensor raw"
proof -
  have hw: "0 < h * w" using pos by simp
  let ?q = "\<lparr>shape = [n, c, h * w], data = data x\<rparr>"
  have q: "reshape x [int n, int c, int (h * w)] = Some ?q"
    using x pos hw by (intro reshape_exact3) (simp_all add: wf_tensor_def mult.assoc)
  obtain kt where kt: "transpose ?q [0, 2, 1] = Some kt" "shape kt = [n, h * w, c]"
    using transpose_021[of ?q n c "h * w"] by auto
  obtain raw where raw: "bmm ?q kt = Some raw" "shape raw = [n, c, c]" "wf_tensor raw"
    using bmm_shape[of ?q n c "h * w" kt c] kt by auto
  show ?thesis unfolding CAM_raw_sim_def using x q kt raw by (simp del: of_nat_mult)
qed

lemma CAM_sim_elem:
  assumes raw: "CAM_raw_sim x = Some raw" "shape raw = [n, c, c]" "wf_tensor raw" and c: "0 < c"
  shows "\<exists>sim. CAM_sim x = Some sim \<and> shape sim = [n, c, c] \<and> wf_tensor sim \<and>
    (\<forall>b<n. \<forall>i<c. \<forall>j<c. elem sim [b, i, j]
        = exp (row_max raw b i - elem raw [b, i, j]) / (\<Sum>l<c. exp (row_max raw b i - elem raw [b, i, l])))"
proof -
  let ?mx = "\<lparr>shape = [n, c, 1], data = map (\<lambda>k. Max ((\<lambda>l. data raw ! (k * c + l)) ` {..<c})) [0..<n * c]\<rparr>"
  have mx: "max_last_keepdim raw = Some ?mx" using max_last_keepdim3[OF raw(2) c] .
  let ?ex = "\<lparr>shape = [n, c, c], data = map (\<lambda>idx. data ?mx ! (idx div c)) [0..<n * c * c]\<rparr>"
  have ex: "expand_as ?mx raw = Some ?ex"
    using broadcast_to_last[of ?mx n c c] c raw(2) by (simp add: expand_as_def)
  let ?t = "\<lparr>shape = [n, c, c], data = map2 (-) (data ?ex) (data raw)\<rparr>"
  have t: "sub ?ex raw = Some ?t"
    using elementwise_same[of ?ex raw "(-)"] raw by (simp add: sub_def wf_tensor_def)
  obtain sim where sim: "softmax_last ?t = Some sim" "shape sim = [n, c, c]" "wf_tensor sim"
    using softmax_last_shape[of ?t] by auto
  have cs: "CAM_sim x = Some sim" unfolding CAM_sim_def using raw(1) mx ex t sim(1) by simp
  have telem: "elem ?t [b, i, j] = row_max raw b i - elem raw [b, i, j]" if "b < n" "i < c" "j < c" for b i j
  proof -
    let ?k = "b * c + i"
    have bd: "?k * c + j < n * c * c" using row_index_bound[OF that] .
    have kb: "?k < n * c"
    proof -
      have "?k * c + 0 < n * c * c" using row_index_bound[OF that(1,2) c] .
      then show ?thesis using c by simp
    qed
    have len: "length (data raw) = n * c * c" using raw by (simp add: wf_tensor_def)
    have "elem ?t [b, i, j] = data ?t ! (?k * c + j)" by (rule elem3) simp
    also have "\<dots> = data ?mx ! ((?k * c + j) div c) - data raw ! (?k * c + j)"
      using bd len by simp
    also have "(?k * c + j) div c = ?k" using row_index_div[OF that(3)] .
    also have "data ?mx ! ?k = Max ((\<lambda>l. data raw ! (?k * c + l)) ` {..<c})" using kb by simp
    finally show ?thesis using raw(2) by (simp add: row_max_def elem3)
  qed
  have "elem sim [b, i, j]
        = exp (row_max raw b i - elem raw [b, i, j]) / (\<Sum>l<c. exp (row_max raw b i - elem raw [b, i, l]))"
    if "b < n" "i < c" "j < c" for b i j
  proof -
    have "elem sim [b, i, j] = exp (elem ?t [b, i, j]) / (\<Sum>l<c. exp (elem ?t [b, i, l]))"
      using softmax_last_elem[of ?t n c c sim b i j] sim(1) that by simp
    also have "(\<Sum>l<c. exp (elem ?t [b, i, l])) = (\<Sum>l<c. exp (row_max raw b i - elem raw [b, i, l]))"
      using telem[OF that(1,2)] by (intro sum.cong) auto
    finally show ?thesis using telem[OF that] by simp
  qed
  then show ?thesis using cs sim by blast
qed

lemma CAM_forward_value:
  assumes x: "shape x = [n, c, h, w]" "wf_tensor x" and pos: "0 < n" "0 < c" "0 < h" "0 < w"
    and p: "CAM_wf self"
  shows "\<exists>feat. shape feat = [n, c, h, w] \<and> wf_tensor feat \<and>
           CAM_forward self x =
             Some \<lparr>shape = [n, c, h, w],
                   data = map2 (+) (map ((*) (data (cam_gamma self) ! 0)) (data feat)) (data x)\<rparr>"
proof -
  have hw: "0 < h * w" using pos by simp
  obtain raw where raw: "CAM_raw_sim x = Some raw" "shape raw = [n, c, c]" "wf_tensor raw"
    using CAM_raw_sim_shape[OF x pos] by auto
  obtain sim where sim: "CAM_sim x = Some sim" "shape sim = [n, c, c]"
    using CAM_sim_elem[OF raw pos(2)] by auto
  let ?v = "\<lparr>shape = [n, c, h * w], data = data x\<rparr>"
  have v: "reshape x [int n, int c, int (h * w)] = Some ?v"
    using x pos hw by (intro reshape_exact3) (simp_all add: wf_tensor_def mult.assoc)
  obtain f where f: "bmm sim ?v = Some f" "shape f = [n, c, h * w]" "wf_tensor f"
    using bmm_shape[of sim n c c ?v "h * w"] sim by auto
  let ?feat = "\<lparr>shape = [n, c, h, w], data = data f\<rparr>"
  have f2: "reshape f [int n, int c, int h, int w] = Some ?feat"
    using f pos by (intro reshape_exact4) (simp_all add: wf_tensor_def mult.assoc)
  have wfeat: "wf_tensor ?feat" using f by (simp add: wf_tensor_def mult.assoc)
  let ?g = "data (cam_gamma self) ! 0"
  have m: "mul (cam_gamma self) ?feat = Some \<lparr>shape = [n, c, h, w], data = map ((*) ?g) (data f)\<rparr>"
    using elementwise_scalar[of "cam_gamma self" ?feat "(*)"] p wfeat by (simp add: mul_def CAM_wf_def)
  have a: "add \<lparr>shape = [n, c, h, w], data = map ((*) ?g) (data f)\<rparr> x
      = Some \<lparr>shape = [n, c, h, w], data = map2 (+) (map ((*) ?g) (data f)) (data x)\<rparr>"
    using elementwise_same[of "\<lparr>shape = [n, c, h, w], data = map ((*) ?g) (data f)\<rparr>" x "(+)"] x wfeat
    by (simp add: add_def wf_tensor_def)
  have "CAM_forward self x = Some \<lparr>shape = [n, c, h, w], data = map2 (+) (map ((*) ?g) (data ?feat)) (data x)\<rparr>"
    unfolding CAM_forward_def using x sim v f f2 m a by (simp del: of_nat_mult)
  then show ?thesis using wfeat by (intro exI[of _ ?feat]) simp
qed

lemma zero_gate_data:
  assumes "length fd = length xd"
  shows "map2 (+) (map ((*) (0::real)) fd) xd = xd"
  using assms by (intro nth_equalityI) auto

lemma PAM_forward_zero_gate:
  assumes "shape x = [n, c, h, w]" "wf_tensor x" "0 < n" "0 < h" "0 < w" "PAM_wf c self"
    and g: "data (gamma self) = [0]"
  shows "PAM_forward self x = Some x"
proof -
  obtain feat where f: "shape feat = [n, c, h, w]" "wf_tensor feat"
    "PAM_forward self x = Some \<lparr>shape = [n, c, h, w],
        data = map2 (+) (map ((*) (data (gamma self) ! 0)) (data feat)) (data x)\<rparr>"
    using PAM_forward_value[OF assms(1-6)] by blast
  have "length (data feat) = length (data x)" using f assms(1,2) by (simp add: wf_tensor_def)
  then show ?thesis using f(3) g assms(1) by (simp add: zero_gate_data)
qed

lemma CAM_forward_zero_gate:
  assumes "shape x = [n, c, h, w]" "wf_tensor x" "0 < n" "0 < c" "0 < h" "0 < w" "CAM_wf self"
    and g: "data (cam_gamma self) = [0]"
  shows "CAM_forward self x = Some x"
proof -
  obtain feat where f: "shape feat = [n, c, h, w]" "wf_tensor feat"
    "CAM_forward self x = Some \<lparr>shape = [n, c, h, w],
        data = map2 (+) (map ((*) (data (cam_gamma self) ! 0)) (data feat)) (data x)\<rparr>"
    using CAM_forward_value[OF assms(1-7)] by blast
  have "length (data feat) = length (data x)" using f assms(1,2) by (simp add: wf_tensor_def)
  then show ?thesis using f(3) g assms(1) by (simp add: zero_gate_data)
qed



lemma Conv2d_init_wf:
  assumes "Conv2d_init ini name cin cout 1 = Inr cv" "\<And>nm s. length (ini nm s) = prod_list s"
  shows "Conv2d_wf cin cout cv"
  using assms
  by (auto simp: Conv2d_init_def bindE_def create_parameter_def Conv2d_wf_def wf_tensor_def
      split: sum.splits if_splits)

lemma PAM_init_wf:
  assumes "PAM_init None ini name c = Inr self" "\<And>nm s. length (ini nm s) = prod_list s"
  shows "PAM_wf c self"
proof -
  obtain q k v where
    q: "Conv2d_init ini (name @ ''.query_conv'') c (c div 8) 1 = Inr q" and
    k: "Conv2d_init ini (name @ ''.key_conv'') c (c div 8) 1 = Inr k" and
    v: "Conv2d_init ini (name @ ''.value_conv'') c c 1 = Inr v" and
    s: "self = \<lparr>query_conv = q, key_conv = k, value_conv = v, gamma = \<lparr>shape = [1], data = [0]\<rparr>\<rparr>"
    using assms(1)
    by (auto simp: PAM_init_def bindE_def Let_def create_parameter_def Constant_def default_initializer_def
      split: sum.splits if_splits option.splits)
  show ?thesis
    using Conv2d_init_wf[OF q assms(2)] Conv2d_init_wf[OF k assms(2)] Conv2d_init_wf[OF v assms(2)]
    by (simp add: PAM_wf_def s wf_tensor_def)
qed

section \<open>The attention modules\<close>





text \<open>
  Claim C3. The forward pass of the position attention module and of the channel attention
  module returns a tensor of the shape of its input \<open>[n, c, h, w]\<close>.
\<close>

theorem attention_shape_preserved:
  assumes "shape x = [n, c, h, w]" "wf_tensor x" "0 < n" "0 < h" "0 < w"
    and "PAM_wf c pm" "CAM_wf cm"
  shows "(\<exists>y. PAM_forward pm x = Some y \<and> shape y = [n, c, h, w])
       \<and> (\<exists>y. CAM_forward cm x = Some y \<and> shape y = [n, c, h, w])"
proof -
  have c: "0 < c" using assms(6) by (simp add: PAM_wf_def Conv2d_wf_def)
  have 1: "\<exists>y. PAM_forward pm x = Some y \<and> shape y = [n, c, h, w]"
    using PAM_forward_value[OF assms(1,2,3,4,5,6)] by auto
  have 2: "\<exists>y. CAM_forward cm x = Some y \<and> shape y = [n, c, h, w]"
    using CAM_forward_value[OF assms(1,2,3) c assms(4,5,7)] by auto
  show ?thesis using 1 2 by simp
qed

theorem attention_shape_preserved_witness:
  "(\<exists>y. PAM_forward trained_pam example_x = Some y \<and> shape y = [1, 8, 1, 2])
   \<and> (\<exists>y. CAM_forward trained_cam example_x = Some y \<and> shape y = [1, 8, 1, 2])"
proof -
  have 2: "PAM_wf 8 trained_pam"
    by (simp add: PAM_wf_def Conv2d_wf_def wf_tensor_def trained_pam_def example_pam_def example_conv_def)
  have 3: "CAM_wf trained_cam" by (simp add: CAM_wf_def wf_tensor_def trained_cam_def)
  have 4: "shape example_x = [1, 8, 1, 2]" "wf_tensor example_x"
    by (simp_all add: example_x_def wf_tensor_def)
  show ?thesis using attention_shape_preserved[OF 4 _ _ _ 2 3] by simp
qed



section \<open>The head\<close>

lemma py_index_last: "xs \<noteq> [] \<Longrightarrow> py_index xs (- 1) = Some (last xs)"
  by (cases xs rule: rev_cases) (auto simp: py_index_def Let_def nth_append)

lemma example_head_init: "DAHead_init example_fw 3 (Some [16, 32]) = Inr example_head"
  by (simp add: DAHead_init_def py_index_def example_fw_def bindE_def PAM_init_def CAM_init_def
      Conv2d_init_def create_parameter_def Constant_def Sequential_init_def DAHead_init_weight_def
      default_initializer_def
      Conv2d_normal_init_def example_head_def example_seq_def Let_def)

lemma example_head_pam_wf: "PAM_wf 8 (pam example_head)"
  by (simp add: PAM_wf_def Conv2d_wf_def wf_tensor_def example_head_def)

lemma example_branches:
  "DAHead_branches example_fw example_head (fs @ [example_feat]) = Some (ones8, ones8)"
proof -
  have o: "shape ones8 = [1, 8, 1, 1]" "wf_tensor ones8" by (simp_all add: ones8_def wf_tensor_def)
  have c: "CAM_forward (cam example_head) ones8 = Some ones8"
    by (rule CAM_forward_zero_gate[OF o]) (simp_all add: CAM_wf_def wf_tensor_def example_head_def)
  have p: "PAM_forward (pam example_head) ones8 = Some ones8"
    by (rule PAM_forward_zero_gate[OF o _ _ _ example_head_pam_wf]) (simp_all add: example_head_def)
  have f: "ConvBNReLU_forward example_fw (32, 8) example_feat = Some ones8"
    by (simp add: example_fw_def example_feat_def ones8_def)
  have g: "ConvBNReLU_forward example_fw (8, 8) ones8 = Some ones8"
    by (simp add: example_fw_def ones8_def)
  have h: "channel_conv example_head = (32, 8)" "position_conv example_head = (32, 8)"
    "conv1 example_head = (8, 8)" "conv2 example_head = (8, 8)"
    by (simp_all add: example_head_def)
  show ?thesis
    by (simp add: DAHead_branches_def py_index_last h f g c p)
qed

lemma eval_branches:
  "DAHead_branches example_fw eval_head fl = DAHead_branches example_fw example_head fl"
  by (simp add: DAHead_branches_def eval_head_def)

lemma add_ones: "add ones8 ones8 = Some (const_tensor [1, 8, 1, 1] 2)"
  using elementwise_same[of ones8 ones8 "(+)"]
  by (simp add: add_def ones8_def wf_tensor_def const_tensor_def)

lemma seq_train_keep:
  "Sequential_forward example_seq (example_draws 0) ones8 = Some (const_tensor [1, 3, 1, 1] (29 / 18))"
  by code_simp

lemma seq_train_drop:
  "Sequential_forward example_seq (example_draws 1) ones8 = Some (const_tensor [1, 3, 1, 1] (1 / 2))"
  by code_simp

lemma seq_train_sum:
  "Sequential_forward example_seq (example_draws 2) (const_tensor [1, 8, 1, 1] 2)
    = Some (const_tensor [1, 3, 1, 1] (49 / 18))"
  by code_simp

lemma seq_eval: "Sequential_forward eval_seq keep ones8 = Some (const_tensor [1, 3, 1, 1] (3 / 2))"
  by code_simp

lemma seq_eval_sum:
  "Sequential_forward eval_seq keep (const_tensor [1, 8, 1, 1] 2) = Some (const_tensor [1, 3, 1, 1] (5 / 2))"
  by code_simp

lemma example_forward:
  "DAHead_forward example_fw example_head example_draws (fs @ [example_feat])
    = Some [const_tensor [1, 3, 1, 1] (49 / 18), const_tensor [1, 3, 1, 1] (29 / 18),
            const_tensor [1, 3, 1, 1] (1 / 2)]"
proof -
  have h: "aux_head_cam example_head = example_seq" "cls_head example_head = example_seq"
    by (simp_all add: example_head_def)
  show ?thesis
    unfolding DAHead_forward_def example_branches
    by (simp only: Option.bind.simps prod.case add_ones h seq_train_keep seq_train_drop seq_train_sum)
qed

lemma eval_forward:
  "DAHead_forward example_fw eval_head draws (fs @ [example_feat])
    = Some [const_tensor [1, 3, 1, 1] (5 / 2), const_tensor [1, 3, 1, 1] (3 / 2),
            const_tensor [1, 3, 1, 1] (3 / 2)]"
proof -
  have h: "aux_head_cam eval_head = eval_seq" "cls_head eval_head = eval_seq"
    by (simp_all add: eval_head_def)
  show ?thesis
    unfolding DAHead_forward_def eval_branches example_branches
    by (simp only: Option.bind.simps prod.case add_ones h seq_eval seq_eval_sum)
qed

lemma Dropout2d_eval:
  "\<not> training d \<Longrightarrow> Dropout2d_forward d keep x = Dropout2d_forward d keep' x"
  by (auto simp: Dropout2d_forward_def split: list.splits)

text \<open>
  Claim C5. Both auxiliary logits come from the one head \<open>aux_head_cam\<close>,
  applied to the refined features of the channel branch and of the position branch. When
  the two refined feature maps are equal, the two logits are equal if the head's dropout
  is in evaluation mode or both applications draw the same mask.
\<close>

theorem aux_logits_shared_head:
  assumes "DAHead_branches fw self fl = Some (cf, pf)"
    and "DAHead_forward fw self draws fl = Some [logit, cam_logit, pam_logit]"
  shows "Sequential_forward (aux_head_cam self) (draws 0) cf = Some cam_logit
       \<and> Sequential_forward (aux_head_cam self) (draws 1) pf = Some pam_logit
       \<and> (cf = pf \<and> (\<not> training (seq_dropout (aux_head_cam self)) \<or> draws 0 = draws 1)
            \<longrightarrow> cam_logit = pam_logit)"
proof -
  have 1: "Sequential_forward (aux_head_cam self) (draws 0) cf = Some cam_logit"
    and 2: "Sequential_forward (aux_head_cam self) (draws 1) pf = Some pam_logit"
    using assms by (auto simp: DAHead_forward_def split: Option.bind_splits)
  have "cam_logit = pam_logit"
    if "cf = pf" "\<not> training (seq_dropout (aux_head_cam self)) \<or> draws 0 = draws 1"
  proof -
    have "Sequential_forward (aux_head_cam self) (draws 0) cf
        = Sequential_forward (aux_head_cam self) (draws 1) cf"
      using that(2) Dropout2d_eval[of "seq_dropout (aux_head_cam self)" "draws 0" cf "draws 1"]
      by (auto simp: Sequential_forward_def)
    then show ?thesis using 1 2 that(1) by simp
  qed
  then show ?thesis using 1 2 by blast
qed

theorem aux_logits_shared_head_witness:
  "Sequential_forward (aux_head_cam eval_head) (example_draws 0) ones8 = Some (const_tensor [1, 3, 1, 1] (3 / 2))
   \<and> Sequential_forward (aux_head_cam eval_head) (example_draws 1) ones8 = Some (const_tensor [1, 3, 1, 1] (3 / 2))"
proof -
  have b: "DAHead_branches example_fw eval_head [example_feat] = Some (ones8, ones8)"
    using example_branches[of "[]"] by (simp add: eval_branches)
  have f: "DAHead_forward example_fw eval_head example_draws [example_feat]
      = Some [const_tensor [1, 3, 1, 1] (5 / 2), const_tensor [1, 3, 1, 1] (3 / 2),
              const_tensor [1, 3, 1, 1] (3 / 2)]"
    using eval_forward[of example_draws "[]"] by simp
  show ?thesis using aux_logits_shared_head[OF b f] by blast
qed

text \<open>
  In training mode the two applications of the head draw their dropout masks
  independently. Here the branches give the same refined features, the first application
  keeps every channel and the second drops every channel: the two logits differ.
\<close>

theorem aux_logits_differ_counterexample:
  "DAHead_branches example_fw example_head [example_feat] = Some (ones8, ones8)
   \<and> DAHead_forward example_fw example_head example_draws [example_feat]
       = Some [const_tensor [1, 3, 1, 1] (49 / 18), const_tensor [1, 3, 1, 1] (29 / 18),
               const_tensor [1, 3, 1, 1] (1 / 2)]
   \<and> const_tensor [1, 3, 1, 1] (29 / 18) \<noteq> const_tensor [1, 3, 1, 1] (1 / 2)"
  using example_branches[of "[]"] example_forward[of "[]"] by (simp add: const_tensor_def)

text \<open>
  Claim C6. The head reads only the last element of its list of feature maps: two
  non-empty lists with the same last element give the same result (for the same module
  and the same dropout draws).
\<close>

theorem DAHead_forward_last_only:
  assumes "fl \<noteq> []" "fl' \<noteq> []" "last fl = last fl'"
  shows "DAHead_forward fw self draws fl = DAHead_forward fw self draws fl'"
  using assms by (simp add: DAHead_forward_def DAHead_branches_def py_index_last)

theorem DAHead_forward_last_only_witness:
  "DAHead_forward example_fw example_head example_draws [ones8, example_x, example_feat]
    = Some [const_tensor [1, 3, 1, 1] (49 / 18), const_tensor [1, 3, 1, 1] (29 / 18),
            const_tensor [1, 3, 1, 1] (1 / 2)]"
  using DAHead_forward_last_only[of "[example_feat]" "[ones8, example_x, example_feat]"
      example_fw example_head example_draws] example_forward[of "[]"]
  by simp

text \<open>
  Claim C9. The constructor gives the head a sub-module \<open>aux_head_pam\<close> with parameters
  of its own, drawn under its own name and not those of \<open>aux_head_cam\<close>; the forward pass
  never applies it, so replacing it by any other module leaves all three logits unchanged.
\<close>

theorem aux_head_pam_unused:
  assumes "DAHead_init fw num_classes (Some chs) = Inr h"
  shows "seq_conv (aux_head_pam h)
           = \<lparr>weight = \<lparr>shape = [num_classes, last chs div 4, 1, 1],
                         data = normal_init fw ''aux_head_pam.1.weight'' [num_classes, last chs div 4, 1, 1]\<rparr>,
              bias = \<lparr>shape = [num_classes], data = default_init fw ''aux_head_pam.1.bias'' [num_classes]\<rparr>\<rparr>
       \<and> seq_conv (aux_head_cam h)
           = \<lparr>weight = \<lparr>shape = [num_classes, last chs div 4, 1, 1],
                         data = normal_init fw ''aux_head_cam.1.weight'' [num_classes, last chs div 4, 1, 1]\<rparr>,
              bias = \<lparr>shape = [num_classes], data = default_init fw ''aux_head_cam.1.bias'' [num_classes]\<rparr>\<rparr>
       \<and> DAHead_forward fw (self\<lparr>aux_head_pam := q\<rparr>) draws fl = DAHead_forward fw self draws fl"
proof -
  have ne: "chs \<noteq> []" using assms by (auto simp: DAHead_init_def py_index_def)
  have pl: "py_index chs (- 1) = Some (last chs)" using py_index_last[OF ne] .
  have 3: "DAHead_forward fw (self\<lparr>aux_head_pam := q\<rparr>) draws fl = DAHead_forward fw self draws fl"
    by (simp add: DAHead_forward_def DAHead_branches_def)
  have 1: "seq_conv (aux_head_pam h)
           = \<lparr>weight = \<lparr>shape = [num_classes, last chs div 4, 1, 1],
                         data = normal_init fw ''aux_head_pam.1.weight'' [num_classes, last chs div 4, 1, 1]\<rparr>,
              bias = \<lparr>shape = [num_classes], data = default_init fw ''aux_head_pam.1.bias'' [num_classes]\<rparr>\<rparr>"
    and 2: "seq_conv (aux_head_cam h)
           = \<lparr>weight = \<lparr>shape = [num_classes, last chs div 4, 1, 1],
                         data = normal_init fw ''aux_head_cam.1.weight'' [num_classes, last chs div 4, 1, 1]\<rparr>,
              bias = \<lparr>shape = [num_classes], data = default_init fw ''aux_head_cam.1.bias'' [num_classes]\<rparr>\<rparr>"
    using assms
    by (auto simp: DAHead_init_def pl bindE_def Let_def Sequential_init_def Conv2d_init_def
        create_parameter_def DAHead_init_weight_def Conv2d_normal_init_def
        split: sum.splits if_splits)
  show ?thesis using 1 2 3 by simp
qed

theorem aux_head_pam_unused_witness:
  "seq_conv (aux_head_pam example_head) = seq_conv example_seq
   \<and> DAHead_forward example_fw (example_head\<lparr>aux_head_pam := eval_seq\<rparr>) example_draws [example_feat]
       = Some [const_tensor [1, 3, 1, 1] (49 / 18), const_tensor [1, 3, 1, 1] (29 / 18),
               const_tensor [1, 3, 1, 1] (1 / 2)]"
  using aux_head_pam_unused[OF example_head_init, where self = example_head and q = eval_seq
      and draws = example_draws and fl = "[example_feat]"]
    example_forward[of "[]"]
  by (simp add: example_head_def)

section \<open>The network\<close>

lemma PAM_forward_wf:
  assumes "shape x = [n, c, h, w]" "wf_tensor x" "0 < n" "0 < h" "0 < w" "PAM_wf c self"
  shows "\<exists>y. PAM_forward self x = Some y \<and> shape y = [n, c, h, w] \<and> wf_tensor y"
proof -
  obtain feat where f: "shape feat = [n, c, h, w]" "wf_tensor feat"
    "PAM_forward self x = Some \<lparr>shape = [n, c, h, w],
        data = map2 (+) (map ((*) (data (gamma self) ! 0)) (data feat)) (data x)\<rparr>"
    using PAM_forward_value[OF assms] by blast
  show ?thesis using f assms(1,2) by (simp add: wf_tensor_def)
qed

lemma CAM_forward_wf:
  assumes "shape x = [n, c, h, w]" "wf_tensor x" "0 < n" "0 < c" "0 < h" "0 < w" "CAM_wf self"
  shows "\<exists>y. CAM_forward self x = Some y \<and> shape y = [n, c, h, w] \<and> wf_tensor y"
proof -
  obtain feat where f: "shape feat = [n, c, h, w]" "wf_tensor feat"
    "CAM_forward self x = Some \<lparr>shape = [n, c, h, w],
        data = map2 (+) (map ((*) (data (cam_gamma self) ! 0)) (data feat)) (data x)\<rparr>"
    using CAM_forward_value[OF assms] by blast
  show ?thesis using f assms(1,2) by (simp add: wf_tensor_def)
qed

lemma Dropout2d_forward_shape:
  assumes "shape x = [n, c, h, w]"
  shows "\<exists>y. Dropout2d_forward d keep x = Some y \<and> shape y = [n, c, h, w]"
  using assms by (simp add: Dropout2d_forward_def)

lemma Sequential_forward_shape:
  assumes "Conv2d_wf c co (seq_conv s)" "shape x = [n, c, h, w]"
  shows "\<exists>y. Sequential_forward s keep x = Some y \<and> shape y = [n, co, h, w] \<and> wf_tensor y"
proof -
  obtain d where d: "Dropout2d_forward (seq_dropout s) keep x = Some d" "shape d = [n, c, h, w]"
    using Dropout2d_forward_shape[OF assms(2)] by blast
  show ?thesis
    using Conv2d_wf_forward[OF assms(1) d(2)] d(1) by (simp add: Sequential_forward_def)
qed

lemma resize_bilinear_shape:
  assumes "shape t = [n, c, h, w]" "0 < h" "0 < w" "0 < H" "0 < W"
  shows "\<exists>r. resize_bilinear t [H, W] = Some r \<and> shape r = [n, c, H, W] \<and> wf_tensor r"
  using assms by (simp add: resize_bilinear_def wf_tensor_def Let_def)

lemma cbr_mapsD:
  assumes "cbr_maps fw l cin cout" "wf_tensor x" "shape x = [n, cin, h, w]" "0 < n" "0 < h" "0 < w"
  shows "\<exists>y. ConvBNReLU_forward fw l x = Some y \<and> wf_tensor y \<and> shape y = [n, cout, h, w]"
  using assms unfolding cbr_maps_def by blast

lemma DAHead_branches_shape:
  assumes wf: "DAHead_wf fw in_ch num_classes self"
    and fl: "fl \<noteq> []" "shape (last fl) = [n, in_ch, h, w]" "wf_tensor (last fl)"
    and pos: "0 < n" "0 < h" "0 < w"
  shows "\<exists>cf pf. DAHead_branches fw self fl = Some (cf, pf)
          \<and> shape cf = [n, in_ch div 4, h, w] \<and> wf_tensor cf
          \<and> shape pf = [n, in_ch div 4, h, w] \<and> wf_tensor pf"
proof -
  let ?i = "in_ch div 4"
  have w: "cbr_maps fw (channel_conv self) in_ch ?i" "cbr_maps fw (position_conv self) in_ch ?i"
    "cbr_maps fw (conv1 self) ?i ?i" "cbr_maps fw (conv2 self) ?i ?i"
    "PAM_wf ?i (pam self)" "CAM_wf (cam self)"
    using wf by (simp_all add: DAHead_wf_def Let_def)
  have i: "0 < ?i" using w(5) by (simp add: PAM_wf_def Conv2d_wf_def)
  obtain c1 where c1: "ConvBNReLU_forward fw (channel_conv self) (last fl) = Some c1"
      "wf_tensor c1" "shape c1 = [n, ?i, h, w]"
    using cbr_mapsD[OF w(1) fl(3,2) pos] by blast
  obtain c2 where c2: "CAM_forward (cam self) c1 = Some c2" "shape c2 = [n, ?i, h, w]" "wf_tensor c2"
    using CAM_forward_wf[OF c1(3,2) pos(1) i pos(2,3) w(6)] by blast
  obtain c3 where c3: "ConvBNReLU_forward fw (conv1 self) c2 = Some c3"
      "wf_tensor c3" "shape c3 = [n, ?i, h, w]"
    using cbr_mapsD[OF w(3) c2(3,2) pos] by blast
  obtain p1 where p1: "ConvBNReLU_forward fw (position_conv self) (last fl) = Some p1"
      "wf_tensor p1" "shape p1 = [n, ?i, h, w]"
    using cbr_mapsD[OF w(2) fl(3,2) pos] by blast
  obtain p2 where p2: "PAM_forward (pam self) p1 = Some p2" "shape p2 = [n, ?i, h, w]" "wf_tensor p2"
    using PAM_forward_wf[OF p1(3,2) pos w(5)] by blast
  obtain p3 where p3: "ConvBNReLU_forward fw (conv2 self) p2 = Some p3"
      "wf_tensor p3" "shape p3 = [n, ?i, h, w]"
    using cbr_mapsD[OF w(4) p2(3,2) pos] by blast
  have "DAHead_branches fw self fl = Some (c3, p3)"
    by (simp add: DAHead_branches_def py_index_last[OF fl(1)] c1 c2 c3 p1 p2 p3)
  then show ?thesis using c3 p3 by blast
qed

lemma DAHead_forward_shape:
  assumes wf: "DAHead_wf fw in_ch num_classes self"
    and fl: "fl \<noteq> []" "shape (last fl) = [n, in_ch, h, w]" "wf_tensor (last fl)"
    and pos: "0 < n" "0 < h" "0 < w"
  shows "\<exists>cf pf fsum logit cam_logit pam_logit.
          DAHead_branches fw self fl = Some (cf, pf)
          \<and> add pf cf = Some fsum
          \<and> Sequential_forward (cls_head self) (draws 2) fsum = Some logit
          \<and> Sequential_forward (aux_head_cam self) (draws 0) cf = Some cam_logit
          \<and> Sequential_forward (aux_head_cam self) (draws 1) pf = Some pam_logit
          \<and> DAHead_forward fw self draws fl = Some [logit, cam_logit, pam_logit]
          \<and> shape logit = [n, num_classes, h, w] \<and> shape cam_logit = [n, num_classes, h, w]
          \<and> shape pam_logit = [n, num_classes, h, w]"
proof -
  let ?i = "in_ch div 4"
  obtain cf pf where b: "DAHead_branches fw self fl = Some (cf, pf)"
      "shape cf = [n, ?i, h, w]" "wf_tensor cf" "shape pf = [n, ?i, h, w]" "wf_tensor pf"
    using DAHead_branches_shape[OF assms] by blast
  have w: "Conv2d_wf ?i num_classes (seq_conv (aux_head_cam self))"
    "Conv2d_wf ?i num_classes (seq_conv (cls_head self))"
    using wf by (simp_all add: DAHead_wf_def Let_def)
  let ?s = "\<lparr>shape = shape pf, data = map2 (+) (data pf) (data cf)\<rparr>"
  have s: "add pf cf = Some ?s"
    using elementwise_same[of pf cf "(+)"] b by (simp add: add_def)
  obtain l1 where l1: "Sequential_forward (aux_head_cam self) (draws 0) cf = Some l1"
      "shape l1 = [n, num_classes, h, w]"
    using Sequential_forward_shape[OF w(1) b(2)] by blast
  obtain l2 where l2: "Sequential_forward (aux_head_cam self) (draws 1) pf = Some l2"
      "shape l2 = [n, num_classes, h, w]"
    using Sequential_forward_shape[OF w(1) b(4)] by blast
  obtain l0 where l0: "Sequential_forward (cls_head self) (draws 2) ?s = Some l0"
      "shape l0 = [n, num_classes, h, w]"
    using Sequential_forward_shape[OF w(2), of ?s n h w] b(4) by auto
  have "DAHead_forward fw self draws fl = Some [l0, l1, l2]"
    unfolding DAHead_forward_def b(1)
    by (simp only: Option.bind.simps prod.case s l1 l2 l0)
  then show ?thesis using b(1) s l0 l1 l2 by blast
qed

lemma example_channels: "those (map (py_index (feat_channels example_bb)) [0, 1]) = Some [16, 32]"
  by (simp add: example_bb_def py_index_def)

text \<open>
  Claim C7. When a pretrained path is given and no such file exists, the constructor of
  the network raises: it returns no network, so no forward pass can follow, and the loader
  is not called. Once the backbone indices and the head are in order, the exception is the
  one of \<open>init_weight\<close>.
\<close>

theorem pretrained_missing_raises:
  assumes "\<not> path_exists path"
  shows "(\<exists>e. DANet_init fw path_exists load num_classes bb (Some path) indices = (Inl e, []))
       \<and> DANet_init_weight path_exists load self (Some path)
           = (Inl (Exception (''Pretrained model is not found: '' @ path)), [])
       \<and> (indices = Some idxs \<and> those (map (py_index (feat_channels bb)) idxs) = Some chs
            \<and> DAHead_init fw num_classes (Some chs) = Inr h
          \<longrightarrow> DANet_init fw path_exists load num_classes bb (Some path) indices
                = (Inl (Exception (''Pretrained model is not found: '' @ path)), []))"
  using assms
  by (auto simp: DANet_init_def DANet_init_weight_def split: option.splits sum.splits)

theorem pretrained_missing_raises_witness:
  "DANet_init example_fw example_exists example_load 3 example_bb
      (Some ''/nonexistent/path.pdparams'') (Some [0, 1])
    = (Inl (Exception ''Pretrained model is not found: /nonexistent/path.pdparams''), [])"
proof -
  have n: "\<not> example_exists ''/nonexistent/path.pdparams''" by (simp add: example_exists_def)
  show ?thesis
    using pretrained_missing_raises[where path_exists = example_exists
          and path = "''/nonexistent/path.pdparams''" and fw = example_fw and load = example_load
          and num_classes = 3 and bb = example_bb and indices = "Some [0, 1]" and idxs = "[0, 1]"
          and chs = "[16, 32]" and h = example_head, OF n]
      example_channels example_head_init
    by simp
qed

text \<open>
  Claim C10. With \<open>pretrained = None\<close> \<open>init_weight\<close> returns the network as it is and
  calls neither the file system nor the loader: the result of the constructor does not
  depend on them, an exception of the constructor is one it raises for every value of
  \<open>pretrained\<close>, and the network it returns holds the head as \<open>DAHead\<close> initialised it.
\<close>

theorem pretrained_none_no_op:
  "DANet_init_weight path_exists load self None = (Inr self, [])
   \<and> DANet_init fw path_exists load num_classes bb None indices
       = DANet_init fw path_exists' load' num_classes bb None indices
   \<and> snd (DANet_init fw path_exists load num_classes bb None indices) = []
   \<and> (DANet_init fw path_exists load num_classes bb None indices = (Inl e, loads)
        \<longrightarrow> DANet_init fw path_exists load num_classes bb pretrained indices = (Inl e, []))
   \<and> (indices = Some idxs \<and> those (map (py_index (feat_channels bb)) idxs) = Some chs
        \<and> DAHead_init fw num_classes (Some chs) = Inr h
      \<longrightarrow> DANet_init fw path_exists load num_classes bb None indices
            = (Inr \<lparr>backbone = bb, backbone_indices = idxs, head = h\<rparr>, []))"
  by (auto simp: DANet_init_def DANet_init_weight_def split: option.splits sum.splits)

theorem pretrained_none_no_op_witness:
  "DANet_init example_fw example_exists example_load 3 example_bb None (Some [0, 1])
    = (Inr example_net, [])"
  using pretrained_none_no_op[where path_exists = example_exists and load = example_load
        and fw = example_fw and num_classes = 3 and bb = example_bb and indices = "Some [0, 1]"
        and idxs = "[0, 1]" and chs = "[16, 32]" and h = example_head]
    example_channels example_head_init
  by (simp add: example_net_def)

lemma those_length: "those xs = Some ys \<Longrightarrow> length ys = length xs"
  by (induction xs arbitrary: ys) (auto split: option.splits)

lemma example_cbr_maps: "0 < cout \<Longrightarrow> cbr_maps example_fw (cin, cout) cin cout"
  by (auto simp: cbr_maps_def example_fw_def wf_tensor_def)

lemma example_head_wf: "DAHead_wf example_fw 32 3 example_head"
proof -
  have s: "Conv2d_wf 8 3 (seq_conv example_seq)"
    by (simp add: Conv2d_wf_def wf_tensor_def example_seq_def)
  have h: "channel_conv example_head = (32, 8)" "position_conv example_head = (32, 8)"
    "conv1 example_head = (8, 8)" "conv2 example_head = (8, 8)"
    "aux_head_pam example_head = example_seq" "aux_head_cam example_head = example_seq"
    "cls_head example_head = example_seq"
    by (simp_all add: example_head_def)
  have c: "CAM_wf (cam example_head)" by (simp add: CAM_wf_def wf_tensor_def example_head_def)
  have d: "(32::nat) div 4 = 8" by simp
  show ?thesis
    unfolding DAHead_wf_def Let_def d h
    using example_cbr_maps[of 8 32] example_cbr_maps[of 8 8] example_head_pam_wf s c by simp
qed

text \<open>
  Claim C8. The forward pass of the network returns exactly three tensors, each of shape
  \<open>[n, num_classes, H, W]\<close>: first the main logit (\<open>cls_head\<close> on the sum of the two
  branches), then the channel auxiliary logit (\<open>aux_head_cam\<close> on the channel branch),
  then the position auxiliary logit (\<open>aux_head_cam\<close> on the position branch), each
  resized bilinearly to the spatial size of the input image. The backbone and the ConvBNReLU layers are external: the
  backbone returns its feature maps for the image, the last selected one with \<open>in_ch\<close>
  channels for the same batch, and the head is well-formed for \<open>in_ch\<close> channels.
\<close>

theorem DANet_forward_outputs:
  assumes x: "shape x = [n, cx, H, W]" "0 < H" "0 < W"
    and bb: "bb_forward (backbone self) x = Some fs"
    and sel: "those (map (py_index fs) (backbone_indices self)) = Some feats"
      "backbone_indices self \<noteq> []"
    and f: "shape (last feats) = [n, in_ch, h, w]" "wf_tensor (last feats)" "0 < n" "0 < h" "0 < w"
    and hd: "DAHead_wf fw in_ch num_classes (head self)"
  shows "\<exists>cf pf fsum logit cam_logit pam_logit r0 r1 r2.
           DAHead_branches fw (head self) feats = Some (cf, pf)
         \<and> add pf cf = Some fsum
         \<and> Sequential_forward (cls_head (head self)) (draws 2) fsum = Some logit
         \<and> Sequential_forward (aux_head_cam (head self)) (draws 0) cf = Some cam_logit
         \<and> Sequential_forward (aux_head_cam (head self)) (draws 1) pf = Some pam_logit
         \<and> DAHead_forward fw (head self) draws feats = Some [logit, cam_logit, pam_logit]
         \<and> resize_bilinear logit [H, W] = Some r0
         \<and> resize_bilinear cam_logit [H, W] = Some r1
         \<and> resize_bilinear pam_logit [H, W] = Some r2
         \<and> DANet_forward fw self draws x = Some [r0, r1, r2]
         \<and> shape r0 = [n, num_classes, H, W]
         \<and> shape r1 = [n, num_classes, H, W]
         \<and> shape r2 = [n, num_classes, H, W]"
proof -
  have ne: "feats \<noteq> []" using those_length[OF sel(1)] sel(2) by auto
  obtain cf pf fsum l0 l1 l2 where l: "DAHead_branches fw (head self) feats = Some (cf, pf)"
      "add pf cf = Some fsum"
      "Sequential_forward (cls_head (head self)) (draws 2) fsum = Some l0"
      "Sequential_forward (aux_head_cam (head self)) (draws 0) cf = Some l1"
      "Sequential_forward (aux_head_cam (head self)) (draws 1) pf = Some l2"
      "DAHead_forward fw (head self) draws feats = Some [l0, l1, l2]"
      "shape l0 = [n, num_classes, h, w]" "shape l1 = [n, num_classes, h, w]"
      "shape l2 = [n, num_classes, h, w]"
    using DAHead_forward_shape[OF hd ne f] by blast
  obtain r0 where r0: "resize_bilinear l0 [H, W] = Some r0" "shape r0 = [n, num_classes, H, W]"
    using resize_bilinear_shape[OF l(7) f(4,5) x(2,3)] by blast
  obtain r1 where r1: "resize_bilinear l1 [H, W] = Some r1" "shape r1 = [n, num_classes, H, W]"
    using resize_bilinear_shape[OF l(8) f(4,5) x(2,3)] by blast
  obtain r2 where r2: "resize_bilinear l2 [H, W] = Some r2" "shape r2 = [n, num_classes, H, W]"
    using resize_bilinear_shape[OF l(9) f(4,5) x(2,3)] by blast
  have "DANet_forward fw self draws x = Some [r0, r1, r2]"
    by (simp add: DANet_forward_def bb sel(1) l(6) x(1) r0(1) r1(1) r2(1))
  then show ?thesis using l(1-6) r0 r1 r2 by blast
qed

theorem DANet_forward_outputs_witness:
  "\<exists>r0 r1 r2. DANet_forward example_fw example_net example_draws example_image = Some [r0, r1, r2]
     \<and> shape r0 = [1, 3, 4, 4] \<and> shape r1 = [1, 3, 4, 4] \<and> shape r2 = [1, 3, 4, 4]"
proof -
  let ?fs = "[const_tensor [1, 16, 2, 2] 1, const_tensor [1, 32, 1, 1] 1]"
  have x: "shape example_image = [1, 3, 4, 4]" by (simp add: example_image_def const_tensor_def)
  have bb: "bb_forward (backbone example_net) example_image = Some ?fs"
    by (simp add: example_net_def example_bb_def example_image_def const_tensor_def)
  have sel: "those (map (py_index ?fs) (backbone_indices example_net)) = Some ?fs"
    by (simp add: example_net_def py_index_def)
  have ne: "backbone_indices example_net \<noteq> []" by (simp add: example_net_def)
  have f: "shape (last ?fs) = [1, 32, 1, 1]" "wf_tensor (last ?fs)"
    by (simp_all add: const_tensor_def wf_tensor_def)
  have hd: "DAHead_wf example_fw 32 3 (head example_net)"
    using example_head_wf by (simp add: example_net_def)
  show ?thesis
    using DANet_forward_outputs[OF x _ _ bb sel ne f _ _ _ hd, of example_draws] by auto
qed

end
